theory Spec2Isabelle
  imports Complex_Main "HOL-Library.AList" "HOL-Library.Char_ord" "HOL-Library.List_Lexorder"
begin

section \<open>Conventions of the embedding\<close>

text \<open>
  This theory embeds the orchestration core of AI-ContentGen-Pro
  (\<^verbatim>\<open>src/prompt_engine.py\<close>, \<^verbatim>\<open>src/utils.py\<close>, \<^verbatim>\<open>src/api_manager.py\<close>,
  \<^verbatim>\<open>src/content_generator.py\<close>) as HOL functions.

  \<^item> A Python \<^verbatim>\<open>str\<close> is a \<open>string\<close>: a list of characters whose code points are below 256.
  \<^item> A Python \<^verbatim>\<open>dict\<close> is an association list in insertion order; \<open>AList.update\<close> is
    item assignment (replace in place, or append a new key at the end).
  \<^item> A Python \<^verbatim>\<open>float\<close> that the code only adds, compares and rounds is a \<open>rat\<close>:
    the arithmetic is exact, binary rounding error is not modelled.
  \<^item> A raised exception is a value of type \<open>pyexc\<close> on the left of a sum.
  \<^item> Clock readings, generated identifiers and the replies of the remote service are
    inputs of the functions that consume them.
  \<^item> Logging has no effect on any value and is left out.
\<close>

section \<open>Exceptions\<close>

text \<open>
  One datatype for every exception class the modelled code raises or catches: the classes of
  \<^verbatim>\<open>prompt_engine.py\<close>, the built-in classes raised by \<^verbatim>\<open>str.format\<close>, the classes of the
  \<^verbatim>\<open>openai\<close> client in the order \<^verbatim>\<open>_make_api_call\<close> tests them, and the classes of
  \<^verbatim>\<open>api_manager.py\<close>. \<open>OtherException\<close> is any other subclass of \<^verbatim>\<open>Exception\<close>, with
  its \<^verbatim>\<open>str()\<close>. A \<open>KeyError\<close> carries the missing key; the other classes carry their message.
\<close>

datatype pyexc =
    TemplateNotFoundError string
  | TemplateValidationError string
  | VariableValidationError string
  | SanitizationError string
  | KeyError string
  | ValueError string
  | IndexError string
  | TypeError string
  | AttributeError string
  | AuthenticationError string
  | RateLimitError string
  | APIConnectionError string
  | OpenAIAPIError string "int option"
  | OtherException string
  | APIKeyInvalidError string
  | RateLimitExceeded string
  | APIConnectionFailed string
  | APIServerError string "int option"
  | RequestTimeoutError string int
  | InvalidPromptError string

section \<open>Strings\<close>

text \<open>Character classes are decided on the code point, read once.\<close>

definition isspace_code :: "nat \<Rightarrow> bool" where
  "isspace_code n = ((9 \<le> n \<and> n \<le> 13) \<or> (28 \<le> n \<and> n \<le> 32) \<or> n = 133 \<or> n = 160)"

definition py_isspace :: "char \<Rightarrow> bool" where
  "py_isspace c = isspace_code (of_char c)"

definition py_strip :: "string \<Rightarrow> string" where
  "py_strip s = rev (dropWhile py_isspace (rev (dropWhile py_isspace s)))"

definition lower_code :: "nat \<Rightarrow> nat" where
  "lower_code n = (if (65 \<le> n \<and> n \<le> 90) \<or> (192 \<le> n \<and> n \<le> 222 \<and> n \<noteq> 215) then n + 32 else n)"

definition py_lower_char :: "char \<Rightarrow> char" where
  "py_lower_char c = char_of (lower_code (of_char c))"

definition py_lower :: "string \<Rightarrow> string" where
  "py_lower s = map py_lower_char s"

fun is_prefix :: "string \<Rightarrow> string \<Rightarrow> bool" where
  "is_prefix [] s = True"
| "is_prefix (p # ps) [] = False"
| "is_prefix (p # ps) (c # cs) = (p = c \<and> is_prefix ps cs)"

text \<open>\<^verbatim>\<open>sub in s\<close> on strings.\<close>

fun py_contains :: "string \<Rightarrow> string \<Rightarrow> bool" where
  "py_contains sub [] = (sub = [])"
| "py_contains sub (c # cs) = (is_prefix sub (c # cs) \<or> py_contains sub cs)"

definition digit_char :: "nat \<Rightarrow> char" where
  "digit_char d = ''0123456789'' ! d"

function nat_to_dec :: "nat \<Rightarrow> string" where
  "nat_to_dec n = (if n < 10 then [digit_char n] else nat_to_dec (n div 10) @ [digit_char (n mod 10)])"
  by pat_completeness auto
termination
  by (relation "measure id") auto

definition int_to_dec :: "int \<Rightarrow> string" where
  "int_to_dec i = (if i < 0 then CHR ''-'' # nat_to_dec (nat (- i)) else nat_to_dec (nat i))"

section \<open>Python values (variables passed to templates)\<close>

text \<open>
  The values a caller can put in the variables dictionary. A float carries its numeric value
  (\<open>None\<close> for NaN and the infinities) and the text \<^verbatim>\<open>str()\<close> gives for it; an object of
  any other class carries its class name and its \<^verbatim>\<open>str()\<close> and \<^verbatim>\<open>repr()\<close> texts.
  Dictionaries have string keys.
\<close>

datatype pyval =
    PNone
  | PStr string
  | PInt int
  | PBool bool
  | PFloat "rat option" string
  | PList "pyval list"
  | PDict "(string \<times> pyval) list"
  | PObj string string string

definition hex_char :: "nat \<Rightarrow> char" where
  "hex_char d = ''0123456789abcdef'' ! d"

definition isprintable_code :: "nat \<Rightarrow> bool" where
  "isprintable_code n = (\<not> (n < 32 \<or> (127 \<le> n \<and> n \<le> 160) \<or> n = 173))"

definition py_isprintable :: "char \<Rightarrow> bool" where
  "py_isprintable c = isprintable_code (of_char c)"

definition repr_char :: "char \<Rightarrow> char \<Rightarrow> string" where
  "repr_char q c =
     (if c = q \<or> c = CHR 0x5C then [CHR 0x5C, c]
      else if c = CHR 0x0A then [CHR 0x5C, CHR ''n'']
      else if c = CHR 0x0D then [CHR 0x5C, CHR ''r'']
      else if c = CHR 0x09 then [CHR 0x5C, CHR ''t'']
      else if \<not> py_isprintable c
        then [CHR 0x5C, CHR ''x'', hex_char (of_char c div 16), hex_char (of_char c mod 16)]
      else [c])"

text \<open>
  \<^verbatim>\<open>repr\<close> of a string: single quotes, unless the string has a single quote and no double
  quote.
\<close>

definition repr_str :: "string \<Rightarrow> string" where
  "repr_str s =
     (let q = (if CHR 0x27 \<in> set s \<and> CHR 0x22 \<notin> set s then CHR 0x22 else CHR 0x27)
      in q # concat (map (repr_char q) s) @ [q])"

fun join :: "string \<Rightarrow> string list \<Rightarrow> string" where
  "join sep [] = []"
| "join sep [x] = x"
| "join sep (x # y # ys) = x @ sep @ join sep (y # ys)"

fun py_repr :: "pyval \<Rightarrow> string" where
  "py_repr PNone = ''None''"
| "py_repr (PStr s) = repr_str s"
| "py_repr (PInt i) = int_to_dec i"
| "py_repr (PBool b) = (if b then ''True'' else ''False'')"
| "py_repr (PFloat v t) = t"
| "py_repr (PList xs) = ''['' @ join '', '' (map py_repr xs) @ '']''"
| "py_repr (PDict kvs) =
     ''{'' @ join '', '' (map (\<lambda>kv. repr_str (fst kv) @ '': '' @ py_repr (snd kv)) kvs) @ ''}''"
| "py_repr (PObj cls st rp) = rp"

definition py_str :: "pyval \<Rightarrow> string" where
  "py_str v = (case v of PStr s \<Rightarrow> s | PObj cls st rp \<Rightarrow> st | _ \<Rightarrow> py_repr v)"

text \<open>\<^verbatim>\<open>str\<close> of a list of strings, as an f-string prints it.\<close>

definition repr_str_list :: "string list \<Rightarrow> string" where
  "repr_str_list xs = ''['' @ join '', '' (map repr_str xs) @ '']''"

section \<open>The remote client wrapper (api\_manager.py)\<close>

subsection \<open>retry\_with\_backoff\<close>

definition MAX_RETRY_ATTEMPTS :: nat where "MAX_RETRY_ATTEMPTS = 3"
definition BASE_RETRY_DELAY :: rat where "BASE_RETRY_DELAY = 2"
definition RETRY_BACKOFF_MULTIPLIER :: rat where "RETRY_BACKOFF_MULTIPLIER = 2"

text \<open>
  The state of one run of the wrapper's loop: what the wrapped call would do at its
  0th, 1st, ... invocation is the function \<open>func\<close>; the record keeps the durations passed to
  \<^verbatim>\<open>time.sleep\<close>, in order, and the number of invocations made.
\<close>

record 'a retry_run =
  rr_outcome :: "pyexc + 'a"
  rr_sleeps :: "rat list"
  rr_calls :: nat

text \<open>
  The statements after the \<^verbatim>\<open>for\<close> loop. \<^verbatim>\<open>raise last_exception\<close> with
  \<^verbatim>\<open>last_exception = None\<close> (no attempt was made) is Python's TypeError.
\<close>

definition retry_exhausted :: "nat \<Rightarrow> pyexc option \<Rightarrow> pyexc" where
  "retry_exhausted max_attempts last_exception =
     (case last_exception of
        Some (RateLimitError m) \<Rightarrow>
          RateLimitExceeded (''Rate limit exceeded after '' @ nat_to_dec max_attempts @ '' attempts'')
      | Some (APIConnectionError m) \<Rightarrow>
          APIConnectionFailed (''Connection failed after '' @ nat_to_dec max_attempts @ '' attempts'')
      | Some e \<Rightarrow> e
      | None \<Rightarrow> TypeError ''exceptions must derive from BaseException'')"

text \<open>
  The loop \<^verbatim>\<open>for attempt in range(1, max_attempts + 1)\<close>. An exception outside
  \<open>retryable\<close> is not caught by the \<^verbatim>\<open>except retryable_exceptions\<close> clause and leaves the
  wrapper at once.
\<close>

function retry_loop ::
  "nat \<Rightarrow> rat \<Rightarrow> (pyexc \<Rightarrow> bool) \<Rightarrow> (nat \<Rightarrow> pyexc + 'a) \<Rightarrow>
   nat \<Rightarrow> rat \<Rightarrow> pyexc option \<Rightarrow> rat list \<Rightarrow> 'a retry_run" where
  "retry_loop max_attempts backoff_multiplier retryable func attempt delay last_exception sleeps =
     (if attempt > max_attempts then
        \<lparr>rr_outcome = Inl (retry_exhausted max_attempts last_exception),
         rr_sleeps = sleeps, rr_calls = attempt - 1\<rparr>
      else (case func (attempt - 1) of
          Inr v \<Rightarrow> \<lparr>rr_outcome = Inr v, rr_sleeps = sleeps, rr_calls = attempt\<rparr>
        | Inl e \<Rightarrow>
            if retryable e then
              (if attempt < max_attempts then
                 retry_loop max_attempts backoff_multiplier retryable func (attempt + 1)
                   (delay * backoff_multiplier) (Some e) (sleeps @ [delay])
               else
                 retry_loop max_attempts backoff_multiplier retryable func (attempt + 1)
                   delay (Some e) sleeps)
            else \<lparr>rr_outcome = Inl e, rr_sleeps = sleeps, rr_calls = attempt\<rparr>))"
  by pat_completeness auto
termination
  by (relation "measure (\<lambda>(m, b, r, f, a, d, l, s). Suc m - a)") auto

definition retry_with_backoff ::
  "nat \<Rightarrow> rat \<Rightarrow> rat \<Rightarrow> (pyexc \<Rightarrow> bool) \<Rightarrow> (nat \<Rightarrow> pyexc + 'a) \<Rightarrow> 'a retry_run" where
  "retry_with_backoff max_attempts base_delay backoff_multiplier retryable func =
     retry_loop max_attempts backoff_multiplier retryable func 1 base_delay None []"

subsection \<open>\_make\_api\_call\<close>

text \<open>
  What \<^verbatim>\<open>self._client.chat.completions.create\<close> returns: the choices (message content and
  finish reason, either may be \<^verbatim>\<open>None\<close>) and the usage block (prompt, completion and total
  tokens), which may be \<^verbatim>\<open>None\<close>.
\<close>

record completion =
  cmp_choices :: "(string option \<times> string option) list"
  cmp_usage :: "(int \<times> int \<times> int) option"

record request =
  rq_model :: string
  rq_messages :: "(string \<times> string) list"
  rq_max_tokens :: int
  rq_temperature :: rat

definition exc_str :: "pyexc \<Rightarrow> string" where
  "exc_str e = (case e of
      TemplateNotFoundError m \<Rightarrow> m | TemplateValidationError m \<Rightarrow> m
    | VariableValidationError m \<Rightarrow> m | SanitizationError m \<Rightarrow> m
    | KeyError k \<Rightarrow> repr_str k | ValueError m \<Rightarrow> m | IndexError m \<Rightarrow> m | TypeError m \<Rightarrow> m
    | AttributeError m \<Rightarrow> m | AuthenticationError m \<Rightarrow> m | RateLimitError m \<Rightarrow> m
    | APIConnectionError m \<Rightarrow> m | OpenAIAPIError m c \<Rightarrow> m | OtherException m \<Rightarrow> m
    | APIKeyInvalidError m \<Rightarrow> m | RateLimitExceeded m \<Rightarrow> m | APIConnectionFailed m \<Rightarrow> m
    | APIServerError m c \<Rightarrow> m | RequestTimeoutError m t \<Rightarrow> m | InvalidPromptError m \<Rightarrow> m)"

text \<open>
  The body of \<^verbatim>\<open>_make_api_call\<close> without its decorator, applied to what the client did:
  the \<^verbatim>\<open>except\<close> clauses in source order. The reply carries the measured latency.
\<close>

definition make_api_call_body :: "int \<Rightarrow> pyexc + (completion \<times> rat) \<Rightarrow> pyexc + (completion \<times> rat)" where
  "make_api_call_body timeout client_result =
     (case client_result of
        Inr r \<Rightarrow> Inr r
      | Inl (AuthenticationError m) \<Rightarrow> Inl (APIKeyInvalidError (''Invalid API key: '' @ m))
      | Inl (RateLimitError m) \<Rightarrow> Inl (RateLimitError m)
      | Inl (APIConnectionError m) \<Rightarrow> Inl (APIConnectionError m)
      | Inl (OpenAIAPIError m code) \<Rightarrow> Inl (APIServerError (''OpenAI server error: '' @ m) code)
      | Inl e \<Rightarrow>
          if py_contains ''timeout'' (py_lower (exc_str e))
          then Inl (RequestTimeoutError (''Request timed out after '' @ int_to_dec timeout @ ''s'') timeout)
          else Inl e)"

definition retryable_exceptions :: "pyexc \<Rightarrow> bool" where
  "retryable_exceptions e = (case e of RateLimitError m \<Rightarrow> True | APIConnectionError m \<Rightarrow> True | _ \<Rightarrow> False)"

text \<open>
  The decorated \<^verbatim>\<open>_make_api_call\<close>: \<open>client k\<close> is what the client does at the \<open>k\<close>-th
  invocation made by this call.
\<close>

definition make_api_call :: "int \<Rightarrow> (nat \<Rightarrow> pyexc + (completion \<times> rat)) \<Rightarrow> (completion \<times> rat) retry_run" where
  "make_api_call timeout client =
     retry_with_backoff MAX_RETRY_ATTEMPTS BASE_RETRY_DELAY RETRY_BACKOFF_MULTIPLIER
       retryable_exceptions (\<lambda>k. make_api_call_body timeout (client k))"

text \<open>The transient outcomes of the client: a rate limit or a connection failure.\<close>

definition is_transient :: "pyexc + 'a \<Rightarrow> bool" where
  "is_transient r = (case r of Inl (RateLimitError m) \<Rightarrow> True | Inl (APIConnectionError m) \<Rightarrow> True | _ \<Rightarrow> False)"

declare nat_to_dec.simps [simp del]
declare retry_loop.simps [simp del]

subsection \<open>Numbers\<close>

text \<open>
  \<^verbatim>\<open>round(x, n)\<close>: the nearest multiple of \<open>10 ^ (- n)\<close>, a tie going to the even one.
\<close>

definition py_round :: "rat \<Rightarrow> nat \<Rightarrow> rat" where
  "py_round x n =
     (let y = x * 10 ^ n; f = \<lfloor>y\<rfloor>; d = y - of_int f;
          r = (if d < 1 / 2 then f else if 1 / 2 < d then f + 1 else if even f then f else f + 1)
      in of_int r / 10 ^ n)"

text \<open>
  \<^verbatim>\<open>x or default\<close> for an optional number: \<^verbatim>\<open>None\<close> and zero are falsy, so both give
  the default.
\<close>

definition py_or :: "'a::zero option \<Rightarrow> 'a \<Rightarrow> 'a" where
  "py_or x dflt = (case x of None \<Rightarrow> dflt | Some v \<Rightarrow> if v = 0 then dflt else v)"

subsection \<open>Responses, statistics and the manager's state\<close>

record token_usage =
  prompt_tokens :: int
  completion_tokens :: int
  total_tokens :: int

text \<open>The class \<^verbatim>\<open>APIResponse\<close>; \<^verbatim>\<open>to_dict\<close> returns the same fields.\<close>

record api_response =
  ar_success :: bool
  ar_content :: string
  ar_model :: string
  ar_tokens_used :: token_usage
  ar_cost :: rat
  ar_timestamp :: string
  ar_request_id :: string
  ar_finish_reason :: string
  ar_error :: "string option"
  ar_latency_ms :: rat

record usage_statistics =
  us_total_requests :: nat
  us_successful_requests :: nat
  us_failed_requests :: nat
  us_total_prompt_tokens :: int
  us_total_completion_tokens :: int
  us_total_tokens :: int
  us_total_cost :: rat
  us_requests_by_model :: "(string \<times> nat) list"
  us_tokens_by_model :: "(string \<times> int) list"
  us_cost_by_model :: "(string \<times> rat) list"

text \<open>
  The state of an \<^verbatim>\<open>OpenAIManager\<close>. Times are seconds. The cache maps a key to the stored
  response and its creation time. \<open>mg_requests\<close> and \<open>mg_sleeps\<close> record, in order, every
  request handed to the client and every pause of the retry wrapper.
\<close>

record manager =
  mg_model :: string
  mg_max_tokens :: int
  mg_temperature :: rat
  mg_timeout :: int
  mg_cache :: "(string \<times> (api_response \<times> rat)) list"
  mg_stats :: usage_statistics
  mg_request_counter :: nat
  mg_requests :: "request list"
  mg_sleeps :: "rat list"

text \<open>
  What one call of \<^verbatim>\<open>generate_content\<close> reads from outside: eight hexadecimal digits of a
  fresh UUID, the timestamp, the clock at the expiry test and at the store, the behaviour of
  the client at its successive invocations, \<^verbatim>\<open>hashlib.sha256(..).hexdigest()\<close>, and the
  binary floating-point value of
  \<^verbatim>\<open>round((prompt_tokens / 1000) * input + (completion_tokens / 1000) * output, 6)\<close>
  (\<open>me_float_cost\<close>, given the two token counts and the two prices). This value is not the
  rounding of the exact sum: for 5 prompt tokens at 0.0005 the exact sum 0.0000025 is a tie,
  and the floating-point computation gives 0.000003.
\<close>

record mgr_env =
  me_uuid :: string
  me_timestamp :: string
  me_now :: rat
  me_store_now :: rat
  me_client :: "nat \<Rightarrow> request \<Rightarrow> pyexc + (completion \<times> rat)"
  me_sha256 :: "string \<Rightarrow> string"
  me_float_cost :: "int \<Rightarrow> rat \<Rightarrow> int \<Rightarrow> rat \<Rightarrow> rat"

definition MGR_CACHE_TTL_SECONDS :: rat where "MGR_CACHE_TTL_SECONDS = 3600"

definition MODEL_COSTS :: "(string \<times> (rat \<times> rat)) list" where
  "MODEL_COSTS =
     [(''gpt-4'', (3 / 100, 6 / 100)),
      (''gpt-4-turbo'', (1 / 100, 3 / 100)),
      (''gpt-3.5-turbo'', (5 / 10000, 15 / 10000)),
      (''gpt-3.5-turbo-16k'', (3 / 1000, 4 / 1000))]"

definition calculate_cost :: "mgr_env \<Rightarrow> string \<Rightarrow> int \<Rightarrow> int \<Rightarrow> rat" where
  "calculate_cost env model p c =
     (case map_of MODEL_COSTS model of
        None \<Rightarrow> 0
      | Some (input, output) \<Rightarrow> me_float_cost env p input c output)"

definition bump :: "'k \<Rightarrow> 'v::zero \<Rightarrow> ('k \<times> 'v) list \<Rightarrow> ('v \<Rightarrow> 'v) \<Rightarrow> ('k \<times> 'v) list" where
  "bump k z d f = AList.update k (f (case map_of d k of None \<Rightarrow> z | Some v \<Rightarrow> v)) d"

definition update_stats :: "api_response \<Rightarrow> usage_statistics \<Rightarrow> usage_statistics" where
  "update_stats r st =
     (let st1 = st\<lparr>us_total_requests := us_total_requests st + 1\<rparr> in
      if ar_success r then
        st1\<lparr>us_successful_requests := us_successful_requests st + 1,
            us_total_prompt_tokens := us_total_prompt_tokens st + prompt_tokens (ar_tokens_used r),
            us_total_completion_tokens := us_total_completion_tokens st + completion_tokens (ar_tokens_used r),
            us_total_tokens := us_total_tokens st + total_tokens (ar_tokens_used r),
            us_total_cost := us_total_cost st + ar_cost r,
            us_requests_by_model := bump (ar_model r) 0 (us_requests_by_model st) (\<lambda>n. n + 1),
            us_tokens_by_model := bump (ar_model r) 0 (us_tokens_by_model st)
                (\<lambda>n. n + total_tokens (ar_tokens_used r)),
            us_cost_by_model := bump (ar_model r) 0 (us_cost_by_model st) (\<lambda>c. c + ar_cost r)\<rparr>
      else st1\<lparr>us_failed_requests := us_failed_requests st + 1\<rparr>)"

definition is_APIManagerError :: "pyexc \<Rightarrow> bool" where
  "is_APIManagerError e = (case e of
      APIKeyInvalidError m \<Rightarrow> True | RateLimitExceeded m \<Rightarrow> True | APIConnectionFailed m \<Rightarrow> True
    | APIServerError m c \<Rightarrow> True | RequestTimeoutError m t \<Rightarrow> True | InvalidPromptError m \<Rightarrow> True
    | _ \<Rightarrow> False)"

definition get_cache_key :: "mgr_env \<Rightarrow> string \<Rightarrow> string option \<Rightarrow> string \<Rightarrow> string" where
  "get_cache_key env prompt system_message model =
     me_sha256 env (prompt @ ''|'' @ (case system_message of None \<Rightarrow> [] | Some s \<Rightarrow> s) @ ''|'' @ model)"

text \<open>
  \<^verbatim>\<open>_check_cache\<close>: the stored response unless the entry is absent or expired; an expired
  entry is deleted.
\<close>

definition check_cache :: "rat \<Rightarrow> string \<Rightarrow> manager \<Rightarrow> api_response option \<times> manager" where
  "check_cache now key m =
     (case map_of (mg_cache m) key of
        None \<Rightarrow> (None, m)
      | Some (resp, created_at) \<Rightarrow>
          if now > created_at + MGR_CACHE_TTL_SECONDS
          then (None, m\<lparr>mg_cache := AList.delete key (mg_cache m)\<rparr>)
          else (Some resp, m))"

text \<open>
  The statements of the \<^verbatim>\<open>try\<close> block after \<^verbatim>\<open>_make_api_call\<close> has returned:
  \<^verbatim>\<open>choices[0]\<close> of an empty list and an attribute of a missing usage block raise.
\<close>

definition extract_response ::
  "mgr_env \<Rightarrow> string \<Rightarrow> string \<Rightarrow> string \<Rightarrow> completion \<times> rat \<Rightarrow> pyexc + api_response" where
  "extract_response env model timestamp request_id reply =
     (case cmp_choices (fst reply) of
        [] \<Rightarrow> Inl (IndexError ''list index out of range'')
      | (msg, fin) # rest \<Rightarrow>
        (case cmp_usage (fst reply) of
           None \<Rightarrow> Inl (AttributeError
                     ([CHR 0x27] @ ''NoneType' object has no attribute 'prompt_tokens'' @ [CHR 0x27]))
         | Some (p, c, t) \<Rightarrow>
             Inr \<lparr>ar_success = True,
                  ar_content = (case msg of None \<Rightarrow> [] | Some s \<Rightarrow> s),
                  ar_model = model,
                  ar_tokens_used = \<lparr>prompt_tokens = p, completion_tokens = c, total_tokens = t\<rparr>,
                  ar_cost = calculate_cost env model p c,
                  ar_timestamp = timestamp,
                  ar_request_id = request_id,
                  ar_finish_reason = (case fin of None \<Rightarrow> ''unknown'' | Some f \<Rightarrow> if f = [] then ''unknown'' else f),
                  ar_error = None,
                  ar_latency_ms = snd reply\<rparr>))"

definition failed_response :: "string \<Rightarrow> string \<Rightarrow> string \<Rightarrow> api_response" where
  "failed_response timestamp request_id err =
     \<lparr>ar_success = False, ar_content = [], ar_model = [],
      ar_tokens_used = \<lparr>prompt_tokens = 0, completion_tokens = 0, total_tokens = 0\<rparr>,
      ar_cost = 0, ar_timestamp = timestamp, ar_request_id = request_id,
      ar_finish_reason = [], ar_error = Some err, ar_latency_ms = 0\<rparr>"

definition build_messages :: "string \<Rightarrow> string option \<Rightarrow> (string \<times> string) list" where
  "build_messages prompt system_message =
     (case system_message of
        None \<Rightarrow> []
      | Some s \<Rightarrow> if s = [] then [] else [(''system'', s)]) @ [(''user'', prompt)]"

text \<open>
  \<^verbatim>\<open>OpenAIManager.generate_content\<close>, with the default monitoring callback (which does
  nothing). The only exception that leaves it is \<^verbatim>\<open>InvalidPromptError\<close>.
\<close>

definition generate_content ::
  "mgr_env \<Rightarrow> manager \<Rightarrow> string \<Rightarrow> int option \<Rightarrow> rat option \<Rightarrow> string option \<Rightarrow> bool \<Rightarrow>
   (pyexc + api_response) \<times> manager" where
  "generate_content env m0 prompt max_tokens temperature system_message use_cache =
     (let m1 = m0\<lparr>mg_request_counter := mg_request_counter m0 + 1\<rparr>;
          request_id = ''req-'' @ me_uuid env @ ''-'' @ nat_to_dec (mg_request_counter m1);
          timestamp = me_timestamp env
      in if prompt = [] \<or> py_strip prompt = [] then
           (Inl (InvalidPromptError ''Prompt cannot be empty''), m1)
         else
           let model = mg_model m1;
               max_tokens' = py_or max_tokens (mg_max_tokens m1);
               temperature' = py_or temperature (mg_temperature m1);
               cache_key = get_cache_key env prompt system_message model;
               (cached, m2) = (if use_cache then check_cache (me_now env) cache_key m1 else (None, m1))
           in case cached of
                Some resp \<Rightarrow>
                  let resp' = resp\<lparr>ar_request_id := request_id, ar_timestamp := timestamp\<rparr>;
                      created = (case map_of (mg_cache m2) cache_key of Some (r, c) \<Rightarrow> c | None \<Rightarrow> 0)
                  in (Inr resp', m2\<lparr>mg_cache := AList.update cache_key (resp', created) (mg_cache m2)\<rparr>)
              | None \<Rightarrow>
                  let req = \<lparr>rq_model = model, rq_messages = build_messages prompt system_message,
                             rq_max_tokens = max_tokens', rq_temperature = temperature'\<rparr>;
                      run = make_api_call (mg_timeout m2) (\<lambda>k. me_client env k req);
                      m3 = m2\<lparr>mg_requests := mg_requests m2 @ replicate (rr_calls run) req,
                              mg_sleeps := mg_sleeps m2 @ rr_sleeps run\<rparr>;
                      outcome = (case rr_outcome run of
                                   Inl e \<Rightarrow> Inl e
                                 | Inr reply \<Rightarrow> extract_response env model timestamp request_id reply)
                  in case outcome of
                       Inr response \<Rightarrow>
                         let m4 = m3\<lparr>mg_stats := update_stats response (mg_stats m3)\<rparr>;
                             m5 = (if use_cache
                                   then m4\<lparr>mg_cache := AList.update cache_key (response, me_store_now env) (mg_cache m4)\<rparr>
                                   else m4)
                         in (Inr response, m5)
                     | Inl e \<Rightarrow>
                         let response = failed_response timestamp request_id
                               (if is_APIManagerError e then exc_str e else ''Unexpected error: '' @ exc_str e)
                         in (Inr response, m3\<lparr>mg_stats := update_stats response (mg_stats m3)\<rparr>))"

text \<open>The requests handed to the client by one call of \<^verbatim>\<open>generate_content\<close>.\<close>

definition requests_sent ::
  "mgr_env \<Rightarrow> manager \<Rightarrow> string \<Rightarrow> int option \<Rightarrow> rat option \<Rightarrow> string option \<Rightarrow> bool \<Rightarrow> request list" where
  "requests_sent env m prompt max_tokens temperature system_message use_cache =
     drop (length (mg_requests m))
       (mg_requests (snd (generate_content env m prompt max_tokens temperature system_message use_cache)))"

subsection \<open>A fresh manager and a sample environment\<close>

definition empty_stats :: usage_statistics where
  "empty_stats = \<lparr>us_total_requests = 0, us_successful_requests = 0, us_failed_requests = 0,
     us_total_prompt_tokens = 0, us_total_completion_tokens = 0, us_total_tokens = 0,
     us_total_cost = 0, us_requests_by_model = [], us_tokens_by_model = [], us_cost_by_model = []\<rparr>"

text \<open>
  \<^verbatim>\<open>OpenAIManager.__init__\<close> with an injected client: \<^verbatim>\<open>model or "gpt-3.5-turbo"\<close>,
  \<^verbatim>\<open>max_tokens or 2000\<close>, \<^verbatim>\<open>temperature or 0.7\<close>. An argument left out (\<^verbatim>\<open>None\<close>) is
  given here as the empty string or as zero, which are falsy as well.
\<close>

definition new_manager :: "string \<Rightarrow> int \<Rightarrow> rat \<Rightarrow> int \<Rightarrow> manager" where
  "new_manager model max_tokens temperature timeout =
     \<lparr>mg_model = (if model = [] then ''gpt-3.5-turbo'' else model),
      mg_max_tokens = (if max_tokens = 0 then 2000 else max_tokens),
      mg_temperature = (if temperature = 0 then 7 / 10 else temperature),
      mg_timeout = timeout, mg_cache = [], mg_stats = empty_stats, mg_request_counter = 0,
      mg_requests = [], mg_sleeps = []\<rparr>"

definition demo_env :: mgr_env where
  "demo_env = \<lparr>me_uuid = ''0a1b2c3d'', me_timestamp = ''2024-01-01T12:00:00'', me_now = 0,
     me_store_now = 0,
     me_client = (\<lambda>k req. Inr (\<lparr>cmp_choices = [(Some ''ok'', Some ''stop'')], cmp_usage = Some (3, 1, 4)\<rparr>, 50)),
     me_sha256 = (\<lambda>s. s),
     me_float_cost = (\<lambda>p input c output.
        py_round ((of_int p / 1000) * input + (of_int c / 1000) * output) 6)\<rparr>"

section \<open>Regular expressions (the deny-lists)\<close>

text \<open>
  The patterns of the source use literals, character classes, concatenation, alternation,
  repetition, \<^verbatim>\<open>\b\<close> and \<^verbatim>\<open>$\<close>. For such patterns \<^verbatim>\<open>re.search\<close> finds a match exactly
  when some substring belongs to the pattern's language, so it is enough to compute, for a set
  of start positions, the set of positions where a match can end.
\<close>

datatype rx =
    Sym "char \<Rightarrow> bool"
  | Lit char
  | Eps
  | Seq rx rx
  | Alt rx rx
  | Star rx
  | WordB
  | Dollar

definition is_digit :: "char \<Rightarrow> bool" where
  "is_digit c = (c \<in> set ''0123456789'')"

text \<open>\<^verbatim>\<open>\w\<close> on text: alphanumeric characters and the underscore.\<close>

definition word_code :: "nat \<Rightarrow> bool" where
  "word_code n =
     ((48 \<le> n \<and> n \<le> 57) \<or> (65 \<le> n \<and> n \<le> 90) \<or> (97 \<le> n \<and> n \<le> 122) \<or> n = 95
     \<or> n = 170 \<or> n = 178 \<or> n = 179 \<or> n = 181 \<or> n = 185 \<or> n = 186
     \<or> (188 \<le> n \<and> n \<le> 190) \<or> (192 \<le> n \<and> n \<le> 214) \<or> (216 \<le> n \<and> n \<le> 246)
     \<or> (248 \<le> n \<and> n \<le> 255))"

definition is_word :: "char \<Rightarrow> bool" where
  "is_word c = word_code (of_char c)"

text \<open>
  A set of positions of a string \<open>s\<close> is a list of \<open>length s + 1\<close> truth values, one for
  each position \<open>0 .. length s\<close>. \<open>boundaries s\<close> marks the positions where \<^verbatim>\<open>\b\<close> holds,
  \<open>dollars s\<close> those where \<^verbatim>\<open>$\<close> holds (the end, or just before a final newline).
\<close>

definition boundaries :: "string \<Rightarrow> bool list" where
  "boundaries s = map2 (\<lambda>before after. before \<noteq> after) (False # map is_word s) (map is_word s @ [False])"

fun dollars :: "string \<Rightarrow> bool list" where
  "dollars [] = [True]"
| "dollars [c] = [c = CHR 0x0A, True]"
| "dollars (c # d # cs) = False # dollars (d # cs)"

text \<open>
  \<open>step r s ls starts\<close>: the positions where a match of \<open>r\<close> in \<open>s\<close> that begins at one
  of \<open>starts\<close> can end; \<open>ls\<close> is \<open>s\<close> in lower case, against which the literals of a
  pattern compiled with \<^verbatim>\<open>re.IGNORECASE\<close> are compared. \<open>rounds k r s ls starts\<close> allows up
  to \<open>k\<close> repetitions of \<open>r\<close>; a repetition needs at most \<open>length s\<close> rounds that advance.
\<close>

fun step :: "rx \<Rightarrow> string \<Rightarrow> string \<Rightarrow> bool list \<Rightarrow> bool list"
  and rounds :: "nat \<Rightarrow> rx \<Rightarrow> string \<Rightarrow> string \<Rightarrow> bool list \<Rightarrow> bool list" where
  "step (Sym p) s ls starts = False # map2 (\<lambda>b c. b \<and> p c) starts s"
| "step (Lit c) s ls starts = False # map2 (\<lambda>b x. b \<and> x = c) starts ls"
| "step Eps s ls starts = starts"
| "step (Seq a b) s ls starts = step b s ls (step a s ls starts)"
| "step (Alt a b) s ls starts = map2 (\<or>) (step a s ls starts) (step b s ls starts)"
| "step (Star a) s ls starts = rounds (Suc (length s)) a s ls starts"
| "step WordB s ls starts = map2 (\<and>) starts (boundaries s)"
| "step Dollar s ls starts = map2 (\<and>) starts (dollars s)"
| "rounds 0 a s ls starts = starts"
| "rounds (Suc k) a s ls starts = rounds k a s ls (map2 (\<or>) starts (step a s ls starts))"

text \<open>\<^verbatim>\<open>re.search\<close> and \<^verbatim>\<open>re.match\<close>, as truth values.\<close>

definition re_search :: "rx \<Rightarrow> string \<Rightarrow> bool" where
  "re_search r s = (True \<in> set (step r s (py_lower s) (replicate (Suc (length s)) True)))"

definition re_match :: "rx \<Rightarrow> string \<Rightarrow> bool" where
  "re_match r s = (True \<in> set (step r s (py_lower s) (True # replicate (length s) False)))"

definition seqs :: "rx list \<Rightarrow> rx" where
  "seqs rs = foldr Seq rs Eps"

definition plus :: "rx \<Rightarrow> rx" where
  "plus r = Seq r (Star r)"

definition opt :: "rx \<Rightarrow> rx" where
  "opt r = Alt r Eps"

text \<open>
  A literal word under \<^verbatim>\<open>re.IGNORECASE\<close>, written in lower case: \<open>Lit c\<close> matches a
  character whose lower case is \<open>c\<close>.
\<close>

definition lit :: "string \<Rightarrow> rx" where
  "lit w = seqs (map Lit w)"

definition one_of :: "string list \<Rightarrow> rx" where
  "one_of ws = foldr (\<lambda>w r. Alt (lit w) r) (butlast ws) (lit (last ws))"

definition rx_s :: rx where "rx_s = Sym py_isspace"
definition rx_w :: rx where "rx_w = Sym is_word"
definition rx_d :: rx where "rx_d = Sym is_digit"
definition rx_dot :: rx where "rx_dot = Sym (\<lambda>c. c \<noteq> CHR 0x0A)"
definition rx_any :: rx where "rx_any = Sym (\<lambda>c. True)"
definition rx_quote :: rx where "rx_quote = Sym (\<lambda>c. c = CHR 0x27 \<or> c = CHR 0x22)"

text \<open>\<^verbatim>\<open>SQL_INJECTION_PATTERNS\<close> of utils.py, searched with \<^verbatim>\<open>re.IGNORECASE\<close>.\<close>

definition SQL_INJECTION_PATTERNS :: "rx list" where
  "SQL_INJECTION_PATTERNS =
    [seqs [WordB, lit ''select'', plus rx_s, plus rx_dot, plus rx_s, lit ''from'', plus rx_s, plus rx_w],
     seqs [WordB, one_of [''insert'', ''update'', ''delete''], plus rx_s, Star rx_dot,
           one_of [''into'', ''from'', ''set''], plus rx_s, plus rx_w],
     seqs [WordB, lit ''drop'', plus rx_s, one_of [''table'', ''database'', ''index'', ''view''], WordB],
     seqs [WordB, lit ''exec'', opt (lit ''ute''), Star rx_s, lit ''(''],
     seqs [WordB, lit ''create'', plus rx_s, one_of [''table'', ''database'', ''index'', ''view''], WordB],
     seqs [WordB, lit ''alter'', plus rx_s, one_of [''table'', ''database''], WordB],
     seqs [lit '';'', Star rx_s, lit ''--''],
     seqs [lit ''/*'', Star rx_dot, lit ''*/''],
     seqs [WordB, lit ''or'', WordB, plus rx_s, rx_quote, plus rx_d, opt rx_quote, Star rx_s, lit ''='',
           Star rx_s, rx_quote, plus rx_d],
     seqs [WordB, lit ''and'', WordB, plus rx_s, rx_quote, plus rx_d, opt rx_quote, Star rx_s, lit ''='',
           Star rx_s, rx_quote, plus rx_d],
     seqs [lit [CHR 0x27], Star rx_s, lit ''or'', plus rx_s, lit [CHR 0x27], Star rx_w, lit [CHR 0x27],
           Star rx_s, lit ''='', Star rx_s, lit [CHR 0x27], Star rx_w],
     seqs [lit '';'', Star rx_s, one_of [''drop'', ''delete'', ''truncate'', ''insert'', ''update''], WordB],
     seqs [lit ''union'', plus rx_s, opt (Seq (lit ''all'') (plus rx_s)), lit ''select''],
     seqs [lit ''xp_'', plus rx_w]]"

text \<open>\<^verbatim>\<open>DANGEROUS_PATTERNS\<close> of prompt\_engine.py; the second one is compiled with \<^verbatim>\<open>re.DOTALL\<close>.\<close>

definition DANGEROUS_PATTERNS :: "rx list" where
  "DANGEROUS_PATTERNS =
    [seqs [one_of [''drop'', ''delete'', ''truncate'', ''alter'', ''insert'', ''update''], plus rx_s,
           one_of [''table'', ''database'', ''schema'']],
     seqs [lit ''<script'', Star (Sym (\<lambda>c. c \<noteq> CHR ''>'')), lit ''>'', Star rx_any, lit ''</script>''],
     lit ''javascript:'',
     seqs [lit ''on'', plus rx_w, Star rx_s, lit ''='']]"

text \<open>\<^verbatim>\<open>TEMPLATE_NAME_PATTERN\<close>, used with \<^verbatim>\<open>re.match\<close>.\<close>

definition name_code :: "nat \<Rightarrow> bool" where
  "name_code n = ((48 \<le> n \<and> n \<le> 57) \<or> (65 \<le> n \<and> n \<le> 90) \<or> (97 \<le> n \<and> n \<le> 122) \<or> n = 95)"

definition TEMPLATE_NAME_PATTERN :: rx where
  "TEMPLATE_NAME_PATTERN = Seq (plus (Sym (\<lambda>c. name_code (of_char c)))) Dollar"

section \<open>Input validation (utils.py)\<close>

definition MAX_STRING_LENGTH :: nat where "MAX_STRING_LENGTH = 10000"

definition quoted :: "string \<Rightarrow> string" where
  "quoted k = [CHR 0x27] @ k @ [CHR 0x27]"

text \<open>The index of the first list item that is a string longer than the ceiling.\<close>

fun long_item :: "nat \<Rightarrow> pyval list \<Rightarrow> nat option" where
  "long_item i [] = None"
| "long_item i (PStr s # xs) = (if length s > MAX_STRING_LENGTH then Some i else long_item (Suc i) xs)"
| "long_item i (x # xs) = long_item (Suc i) xs"

text \<open>
  The checks of \<^verbatim>\<open>validate_input\<close> on one variable, in source order; the result is the
  error message, if any. A \<^verbatim>\<open>bool\<close> is an \<^verbatim>\<open>int\<close> for \<^verbatim>\<open>isinstance\<close> and passes
  the numeric branch unchecked.
\<close>

fun validate_value :: "string \<Rightarrow> pyval \<Rightarrow> string option" where
  "validate_value k PNone = Some (''Variable '' @ quoted k @ '' cannot be None'')"
| "validate_value k (PStr s) =
     (if py_strip s = [] then
        Some (''Variable '' @ quoted k @ '' cannot be empty or whitespace-only'')
      else if length s > MAX_STRING_LENGTH then
        Some (''Variable '' @ quoted k @ '' exceeds maximum length of '' @ nat_to_dec MAX_STRING_LENGTH
              @ '' characters (got '' @ nat_to_dec (length s) @ '')'')
      else if list_ex (\<lambda>r. re_search r s) SQL_INJECTION_PATTERNS then
        Some (''Variable '' @ quoted k @ '' contains potential SQL injection pattern'')
      else None)"
| "validate_value k (PBool b) = None"
| "validate_value k (PInt i) =
     (if \<bar>i\<bar> > 10 ^ 12 then Some (''Variable '' @ quoted k @ '' integer value is unreasonably large'')
      else None)"
| "validate_value k (PFloat v t) =
     (case v of
        None \<Rightarrow> Some (''Variable '' @ quoted k @ '' is NaN or Infinity'')
      | Some x \<Rightarrow>
          if \<bar>x\<bar> > 10 ^ 12 then Some (''Variable '' @ quoted k @ '' float value is unreasonably large'')
          else None)"
| "validate_value k (PList xs) =
     (if xs = [] then Some (''Variable '' @ quoted k @ '' list cannot be empty'')
      else if length xs > 1000 then Some (''Variable '' @ quoted k @ '' list is too large (max 1000 items)'')
      else (case long_item 0 xs of
              Some i \<Rightarrow> Some (''Variable '' @ quoted k @ '' list item '' @ nat_to_dec i
                               @ '' exceeds maximum length of '' @ nat_to_dec MAX_STRING_LENGTH @ '' characters'')
            | None \<Rightarrow> None))"
| "validate_value k (PDict d) = None"
| "validate_value k (PObj cls st rp) = Some (''Variable '' @ quoted k @ '' has unsupported type '' @ cls)"

fun first_error :: "(string \<times> pyval) list \<Rightarrow> string option" where
  "first_error [] = None"
| "first_error ((k, v) # kvs) =
     (if k = [] then Some ''Variable name cannot be empty''
      else (case validate_value k v of Some e \<Rightarrow> Some e | None \<Rightarrow> first_error kvs))"

text \<open>\<^verbatim>\<open>validate_input\<close>: \<open>None\<close> is \<^verbatim>\<open>(True, None)\<close>, \<open>Some msg\<close> is \<^verbatim>\<open>(False, msg)\<close>.\<close>

definition validate_input :: "string \<Rightarrow> (string \<times> pyval) list \<Rightarrow> string option" where
  "validate_input template_name vars =
     (if template_name = [] then Some ''Template name cannot be empty''
      else if \<not> re_match TEMPLATE_NAME_PATTERN template_name then
        Some ''Template name must contain only alphanumeric characters and underscores (a-z, A-Z, 0-9, _)''
      else first_error vars)"

section \<open>Templates (prompt\_engine.py)\<close>

text \<open>
  Functions taken as they are: \<^verbatim>\<open>hashlib.md5(..).hexdigest()\<close>, \<^verbatim>\<open>json.dumps\<close> with
  \<^verbatim>\<open>sort_keys=True, default=str\<close>, the text of a float, and what \<^verbatim>\<open>str.format\<close> does
  with the rest of a format string from a replacement field that uses attribute access,
  indexing, a conversion or a format specification (the argument begins just after that
  field's opening brace). \<^verbatim>\<open>sanitize_output\<close> of utils.py is kept uninterpreted as well:
  no statement below depends on what it computes.
\<close>

record deps =
  lib_md5 :: "string \<Rightarrow> string"
  lib_json_dumps :: "(string \<times> pyval) list \<Rightarrow> string"
  lib_float_str :: "rat \<Rightarrow> string"
  lib_format_field :: "string \<Rightarrow> (string \<times> string) list \<Rightarrow> pyexc + string"
  sanitize_output :: "string \<Rightarrow> string"

record prompt_template =
  name :: string
  category :: string
  template :: string
  system_instructions :: string
  default_tone :: string
  required_variables :: "string list"
  optional_variables :: "(string \<times> string) list"
  max_tokens_recommendation :: int
  temperature_recommendation :: rat
  version :: string
  description :: string
  tags :: "string list"
  ab_test_group :: "string option"
  enabled :: bool

definition MAX_TEMPLATE_LENGTH :: nat where "MAX_TEMPLATE_LENGTH = 10000"
definition MAX_VARIABLE_LENGTH :: nat where "MAX_VARIABLE_LENGTH = 5000"
definition MAX_NAME_LENGTH :: nat where "MAX_NAME_LENGTH = 100"

text \<open>
  \<^verbatim>\<open>_validate_template\<close>, run by the constructor: the exception it raises, if any. The two
  warnings about undeclared and unused variables are only logged.
\<close>

definition validate_template :: "deps \<Rightarrow> prompt_template \<Rightarrow> pyexc option" where
  "validate_template d t =
     (if name t = [] then
        Some (TemplateValidationError ''Template name must be a non-empty string'')
      else if length (name t) > MAX_NAME_LENGTH then
        Some (TemplateValidationError
               (''Template name exceeds maximum length of '' @ nat_to_dec MAX_NAME_LENGTH))
      else if template t = [] then
        Some (TemplateValidationError ''Template must be a non-empty string'')
      else if length (template t) > MAX_TEMPLATE_LENGTH then
        Some (TemplateValidationError
               (''Template exceeds maximum length of '' @ nat_to_dec MAX_TEMPLATE_LENGTH))
      else if \<not> (0 \<le> temperature_recommendation t \<and> temperature_recommendation t \<le> 2) then
        Some (TemplateValidationError
               (''Temperature must be between 0.0 and 2.0, got ''
                @ lib_float_str d (temperature_recommendation t)))
      else if max_tokens_recommendation t < 1 then
        Some (TemplateValidationError ''max_tokens_recommendation must be at least 1'')
      else None)"

text \<open>The constructor \<^verbatim>\<open>PromptTemplate(...)\<close>.\<close>

definition PromptTemplate :: "deps \<Rightarrow> prompt_template \<Rightarrow> pyexc + prompt_template" where
  "PromptTemplate d t = (case validate_template d t of Some e \<Rightarrow> Inl e | None \<Rightarrow> Inr t)"

subsection \<open>str.format with keyword arguments only\<close>

definition PY_SSIZE_T_MAX :: nat where "PY_SSIZE_T_MAX = 2 ^ 63 - 1"

fun dec_value :: "nat \<Rightarrow> string \<Rightarrow> nat" where
  "dec_value acc [] = acc"
| "dec_value acc (c # cs) = dec_value (acc * 10 + (of_char c - 48)) cs"

text \<open>
  A plain field name: empty or all digits is a positional argument, and there is none;
  otherwise the keyword argument of that name.
\<close>

definition lookup_field :: "(string \<times> string) list \<Rightarrow> string \<Rightarrow> pyexc + string" where
  "lookup_field m nm =
     (if nm = [] then Inl (IndexError ''Replacement index 0 out of range for positional args tuple'')
      else if list_all is_digit nm then
        (let n = dec_value 0 nm in
         if n > PY_SSIZE_T_MAX then Inl (ValueError ''Too many decimal digits in format string'')
         else Inl (IndexError (''Replacement index '' @ nat_to_dec n
                               @ '' out of range for positional args tuple'')))
      else (case map_of m nm of None \<Rightarrow> Inl (KeyError nm) | Some v \<Rightarrow> Inr v))"

definition cons_out :: "char \<Rightarrow> pyexc + string \<Rightarrow> pyexc + string" where
  "cons_out c r = (case r of Inl e \<Rightarrow> Inl e | Inr s \<Rightarrow> Inr (c # s))"

definition append_out :: "string \<Rightarrow> pyexc + string \<Rightarrow> pyexc + string" where
  "append_out v r = (case r of Inl e \<Rightarrow> Inl e | Inr s \<Rightarrow> Inr (v @ s))"

text \<open>
  The scan of the format string, left to right. The third argument is \<open>None\<close> in literal
  text and \<open>Some acc\<close> inside a replacement field whose name so far is \<open>acc\<close>. The first
  error met is the result.
\<close>

fun format_from :: "deps \<Rightarrow> (string \<times> string) list \<Rightarrow> string option \<Rightarrow> string \<Rightarrow> pyexc + string" where
  "format_from d m None [] = Inr []"
| "format_from d m None (c # cs) =
     (if c = CHR ''{'' then
        (case cs of
           [] \<Rightarrow> Inl (ValueError ''Single '{' encountered in format string'')
         | c2 # r \<Rightarrow>
             if c2 = CHR ''{'' then cons_out c (format_from d m None r)
             else format_from d m (Some []) cs)
      else if c = CHR ''}'' then
        (case cs of
           [] \<Rightarrow> Inl (ValueError ''Single '}' encountered in format string'')
         | c2 # r \<Rightarrow>
             if c2 = CHR ''}'' then cons_out c (format_from d m None r)
             else Inl (ValueError ''Single '}' encountered in format string''))
      else cons_out c (format_from d m None cs))"
| "format_from d m (Some acc) [] = Inl (ValueError ''expected '}' before end of string'')"
| "format_from d m (Some acc) (c # cs) =
     (if c = CHR ''{'' then Inl (ValueError ''unexpected '{' in field name'')
      else if c = CHR ''['' \<or> c = CHR '':'' \<or> c = CHR ''!'' then lib_format_field d (acc @ c # cs) m
      else if c = CHR ''}'' then
        (if CHR ''.'' \<in> set acc then lib_format_field d (acc @ c # cs) m
         else (case lookup_field m acc of
                 Inl e \<Rightarrow> Inl e
               | Inr v \<Rightarrow> append_out v (format_from d m None cs)))
      else format_from d m (Some (acc @ [c])) cs)"

definition py_format :: "deps \<Rightarrow> string \<Rightarrow> (string \<times> string) list \<Rightarrow> pyexc + string" where
  "py_format d s m = format_from d m None s"

subsection \<open>PromptTemplate.generate\<close>

definition is_missing :: "(string \<times> pyval) list \<Rightarrow> string \<Rightarrow> bool" where
  "is_missing vars v =
     (case map_of vars v of
        None \<Rightarrow> True
      | Some PNone \<Rightarrow> True
      | Some (PStr s) \<Rightarrow> py_strip s = []
      | Some _ \<Rightarrow> False)"

definition validate_variables :: "prompt_template \<Rightarrow> (string \<times> pyval) list \<Rightarrow> bool \<times> string list" where
  "validate_variables t vars =
     (let missing = filter (is_missing vars) (required_variables t) in (missing = [], missing))"

text \<open>\<^verbatim>\<open>s.replace("{", "{{").replace("}", "}}")\<close>.\<close>

definition escape_braces :: "string \<Rightarrow> string" where
  "escape_braces s = concat (map (\<lambda>c. if c = CHR ''{'' \<or> c = CHR ''}'' then [c, c] else [c]) s)"

text \<open>\<^verbatim>\<open>s.replace(cc, c)\<close> for a doubled character: leftmost pairs first, no overlap.\<close>

fun undouble :: "char \<Rightarrow> string \<Rightarrow> string" where
  "undouble c (x # y # r) = (if x = c \<and> y = c then c # undouble c r else x # undouble c (y # r))"
| "undouble c r = r"

definition unescape_braces :: "string \<Rightarrow> string" where
  "unescape_braces s = undouble (CHR ''}'') (undouble (CHR ''{'') s)"

definition str_or_empty :: "pyval \<Rightarrow> string" where
  "str_or_empty v = (case v of PNone \<Rightarrow> [] | _ \<Rightarrow> py_str v)"

definition sanitize_value :: "pyval \<Rightarrow> pyexc + string" where
  "sanitize_value v =
     (let str_value = str_or_empty v in
      if length str_value > MAX_VARIABLE_LENGTH then
        Inl (SanitizationError (''Variable value exceeds maximum length of '' @ nat_to_dec MAX_VARIABLE_LENGTH))
      else if list_ex (\<lambda>r. re_search r str_value) DANGEROUS_PATTERNS then
        Inl (SanitizationError ''Input contains potentially malicious content'')
      else Inr (escape_braces str_value))"

text \<open>
  The loop \<^verbatim>\<open>for key, value in variables.items()\<close> over the merged dictionary; the first
  \<^verbatim>\<open>SanitizationError\<close> leaves it.
\<close>

fun override_vars :: "bool \<Rightarrow> (string \<times> pyval) list \<Rightarrow> (string \<times> string) list \<Rightarrow> pyexc + (string \<times> string) list" where
  "override_vars sanitize [] merged = Inr merged"
| "override_vars sanitize ((k, v) # kvs) merged =
     (if sanitize then
        (case sanitize_value v of
           Inl e \<Rightarrow> Inl e
         | Inr s \<Rightarrow> override_vars sanitize kvs (AList.update k s merged))
      else override_vars sanitize kvs (AList.update k (str_or_empty v) merged))"

text \<open>
  \<open>merged_vars\<close>: the optional defaults, the default tone when neither the defaults nor the
  caller give one, then the caller's values.
\<close>

definition merged_vars :: "prompt_template \<Rightarrow> (string \<times> pyval) list \<Rightarrow> bool \<Rightarrow> pyexc + (string \<times> string) list" where
  "merged_vars t vars sanitize =
     (let m0 = optional_variables t;
          m1 = (if map_of m0 ''tone'' = None \<and> map_of vars ''tone'' = None
                then AList.update ''tone'' (default_tone t) m0 else m0)
      in override_vars sanitize vars m1)"

definition final_vars :: "(string \<times> string) list \<Rightarrow> (string \<times> string) list" where
  "final_vars merged = map (\<lambda>kv. (fst kv, unescape_braces (snd kv))) merged"

definition template_generate ::
  "deps \<Rightarrow> prompt_template \<Rightarrow> (string \<times> pyval) list \<Rightarrow> bool \<Rightarrow> bool \<Rightarrow> pyexc + string" where
  "template_generate d t vars sanitize include_system =
     (let (is_valid, missing) = validate_variables t vars in
      if \<not> is_valid then
        Inl (VariableValidationError
              (''Missing required variables for template '' @ quoted (name t) @ '': ''
               @ repr_str_list missing))
      else (case merged_vars t vars sanitize of
          Inl e \<Rightarrow> Inl e
        | Inr merged \<Rightarrow>
            (case py_format d (template t) (final_vars merged) of
               Inl (KeyError k) \<Rightarrow>
                 Inl (VariableValidationError
                       (''Template variable '' @ repr_str k @ '' not provided and has no default''))
             | Inl e \<Rightarrow> Inl e
             | Inr result \<Rightarrow>
                 Inr (if include_system \<and> system_instructions t \<noteq> []
                      then ''[System: '' @ system_instructions t @ '']'' @ [CHR 0x0A, CHR 0x0A] @ result
                      else result))))"

section \<open>The orchestrator (content\_generator.py)\<close>

definition MAX_HISTORY_SIZE :: nat where "MAX_HISTORY_SIZE = 1000"
definition MAX_CACHE_SIZE :: nat where "MAX_CACHE_SIZE = 100"
definition CACHE_TTL_SECONDS :: rat where "CACHE_TTL_SECONDS = 3600"
definition DEFAULT_RETRY_ATTEMPTS :: nat where "DEFAULT_RETRY_ATTEMPTS = 1"

text \<open>The result dictionary of \<^verbatim>\<open>generate\<close>; the key \<^verbatim>\<open>error\<close> is absent when \<open>error\<close> is \<open>None\<close>.\<close>

record result =
  success :: bool
  content :: string
  template_used :: string
  variables :: "(string \<times> pyval) list"
  timestamp :: string
  request_id :: string
  model :: string
  tokens_used :: token_usage
  cost :: rat
  cached :: bool
  generation_time :: rat
  error :: "string option"

record cache_entry =
  data :: result
  expires_at :: rat
  created_at :: rat

text \<open>
  The state of a \<^verbatim>\<open>ContentGenerator\<close> with its prompt engine and its \<^verbatim>\<open>LRUCache\<close>:
  \<open>templates\<close>, \<open>active_templates\<close> and \<open>usage_stats\<close> belong to the engine; \<open>cache\<close> (oldest
  entry first), \<open>hits\<close> and \<open>misses\<close> to the cache. \<open>has_api_manager\<close> tells whether
  \<^verbatim>\<open>self.api_manager\<close> is set. \<open>remote_calls\<close> counts the calls of
  \<^verbatim>\<open>api_manager.generate_content\<close> made so far, and \<open>notified\<close> lists the results handed to
  \<^verbatim>\<open>_invoke_callbacks\<close>. The engine's memo of \<^verbatim>\<open>to_dict\<close> results is cleared whenever a
  template is registered, so \<^verbatim>\<open>get_template\<close> rebuilds the stored template.
\<close>

record generator =
  templates :: "(string \<times> prompt_template) list"
  active_templates :: "string list"
  usage_stats :: "(string \<times> nat) list"
  history :: "result list"
  cache :: "(string \<times> cache_entry) list"
  hits :: nat
  misses :: nat
  cache_checks :: nat
  cache_hits :: nat
  session_total_cost :: rat
  has_api_manager :: bool
  remote_calls :: nat
  notified :: "result list"
  session_id :: string
  session_start :: string

subsection \<open>LRUCache\<close>

definition lru_get :: "rat \<Rightarrow> string \<Rightarrow> generator \<Rightarrow> result option \<times> generator" where
  "lru_get now key g =
     (case map_of (cache g) key of
        None \<Rightarrow> (None, g\<lparr>misses := misses g + 1\<rparr>)
      | Some entry \<Rightarrow>
          if now > expires_at entry then
            (None, g\<lparr>cache := AList.delete key (cache g), misses := misses g + 1\<rparr>)
          else
            (Some (data entry),
             g\<lparr>cache := AList.delete key (cache g) @ [(key, entry)], hits := hits g + 1\<rparr>))"

text \<open>\<^verbatim>\<open>while len(self._cache) >= self._max_size: self._cache.popitem(last=False)\<close>.\<close>

function evict :: "(string \<times> cache_entry) list \<Rightarrow> (string \<times> cache_entry) list" where
  "evict c = (if length c \<ge> MAX_CACHE_SIZE then evict (tl c) else c)"
  by pat_completeness auto
termination
  by (relation "measure length") (auto simp: MAX_CACHE_SIZE_def)

definition lru_set :: "rat \<Rightarrow> rat \<Rightarrow> string \<Rightarrow> result \<Rightarrow> generator \<Rightarrow> generator" where
  "lru_set now now' key r g =
     g\<lparr>cache := evict (AList.delete key (cache g))
          @ [(key, \<lparr>data = r, expires_at = now + CACHE_TTL_SECONDS, created_at = now'\<rparr>)]\<rparr>"

definition hit_rate :: "generator \<Rightarrow> rat" where
  "hit_rate g = (let total = hits g + misses g in
     if total > 0 then of_nat (hits g) / of_nat total * 100 else 0)"

text \<open>\<^verbatim>\<open>clear_cache\<close> returns the number of entries cleared.\<close>

definition clear_cache :: "generator \<Rightarrow> nat \<times> generator" where
  "clear_cache g = (length (cache g), g\<lparr>cache := []\<rparr>)"

subsection \<open>History\<close>

text \<open>\<^verbatim>\<open>while len(self._history) > MAX_HISTORY_SIZE: self._history.pop(0)\<close>.\<close>

function trim_history :: "result list \<Rightarrow> result list" where
  "trim_history h = (if length h > MAX_HISTORY_SIZE then trim_history (tl h) else h)"
  by pat_completeness auto
termination
  by (relation "measure length") auto

definition add_to_history :: "result \<Rightarrow> generator \<Rightarrow> generator" where
  "add_to_history r g = g\<lparr>history := trim_history (history g @ [r])\<rparr>"

definition clear_history :: "generator \<Rightarrow> nat \<times> generator" where
  "clear_history g = (length (history g), g\<lparr>history := []\<rparr>)"

text \<open>\<^verbatim>\<open>xs[-limit:]\<close> for a non-zero \<open>limit\<close>.\<close>

definition slice_from_neg :: "int \<Rightarrow> 'a list \<Rightarrow> 'a list" where
  "slice_from_neg limit xs =
     (if limit > 0 then drop (length xs - nat limit) xs else drop (nat (- limit)) xs)"

text \<open>
  \<^verbatim>\<open>get_history\<close>; the start date is given by its ISO text, and timestamps are compared as
  strings.
\<close>

definition get_history ::
  "generator \<Rightarrow> int option \<Rightarrow> string option \<Rightarrow> string option \<Rightarrow> bool \<Rightarrow> result list" where
  "get_history g limit template_filter start_date success_only =
     (let f0 = history g;
          f1 = (case template_filter of
                  None \<Rightarrow> f0
                | Some tf \<Rightarrow> if tf = [] then f0 else filter (\<lambda>h. template_used h = tf) f0);
          f2 = (case start_date of
                  None \<Rightarrow> f1
                | Some start_iso \<Rightarrow> filter (\<lambda>h. start_iso \<le> timestamp h) f1);
          f3 = (if success_only then filter success f2 else f2)
      in case limit of
           None \<Rightarrow> f3
         | Some l \<Rightarrow> if l = 0 then f3 else slice_from_neg l f3)"

subsection \<open>The prompt engine's store\<close>

definition get_template :: "deps \<Rightarrow> string \<Rightarrow> generator \<Rightarrow> (pyexc + prompt_template) \<times> generator" where
  "get_template d nm g =
     (case map_of (templates g) nm of
        None \<Rightarrow> (Inl (TemplateNotFoundError (''Template '' @ quoted nm @ '' not found'')), g)
      | Some t \<Rightarrow> (PromptTemplate d t, g\<lparr>usage_stats := bump nm 0 (usage_stats g) (\<lambda>n. n + 1)\<rparr>))"

definition engine_register :: "prompt_template \<Rightarrow> generator \<Rightarrow> generator" where
  "engine_register t g =
     g\<lparr>templates := AList.update (name t) t (templates g),
       active_templates := (if enabled t then List.insert (name t) (active_templates g)
                            else removeAll (name t) (active_templates g))\<rparr>"

text \<open>
  \<^verbatim>\<open>ContentGenerator.register_template\<close>: the constructor validates, then the engine
  stores. The argument holds the constructor's arguments, defaults filled in.
\<close>

definition register_template :: "deps \<Rightarrow> prompt_template \<Rightarrow> generator \<Rightarrow> pyexc + (prompt_template \<times> generator)" where
  "register_template d t g =
     (case PromptTemplate d t of
        Inl e \<Rightarrow> Inl e
      | Inr t' \<Rightarrow> Inr (t', engine_register t' g))"

subsection \<open>generate\<close>

text \<open>
  What one call of \<^verbatim>\<open>generate\<close> reads from outside: the request id, the timestamp, the
  clock at the cache lookup and at the two readings of the cache store, the elapsed time put
  into \<open>generation_time\<close>, and what \<^verbatim>\<open>api_manager.generate_content\<close> does at its successive
  calls (given the prompt and the keyword arguments): it returns a response or raises.
\<close>

record gen_env =
  ge_request_id :: string
  ge_timestamp :: string
  ge_now :: rat
  ge_set_now :: rat
  ge_set_now' :: rat
  ge_elapsed :: rat
  ge_api :: "nat \<Rightarrow> string \<Rightarrow> (string \<times> pyval) list \<Rightarrow> pyexc + api_response"

definition generate_cache_key :: "deps \<Rightarrow> string \<Rightarrow> (string \<times> pyval) list \<Rightarrow> string" where
  "generate_cache_key d template_name vars =
     lib_md5 d (template_name @ '':'' @ lib_json_dumps d vars)"

text \<open>
  \<^verbatim>\<open>_call_api_with_retry\<close>: the loop over the attempts. The result is the successful
  response, or the error text of the failure dictionary, with the number of calls made.
  \<open>last_error\<close> is \<open>None\<close> for Python's \<^verbatim>\<open>None\<close>, which an f-string prints as \<^verbatim>\<open>None\<close>.
\<close>

function call_loop ::
  "gen_env \<Rightarrow> string \<Rightarrow> (string \<times> pyval) list \<Rightarrow> nat \<Rightarrow> nat \<Rightarrow> string option \<Rightarrow> (string + api_response) \<times> nat" where
  "call_loop env prompt overrides attempts attempt last_error =
     (if attempt > attempts then
        (Inl (''Failed after '' @ nat_to_dec attempts @ '' attempts: ''
              @ (case last_error of None \<Rightarrow> ''None'' | Some e \<Rightarrow> e)), attempt - 1)
      else (case ge_api env (attempt - 1) prompt overrides of
          Inr r \<Rightarrow>
            if ar_success r then (Inr r, attempt)
            else call_loop env prompt overrides attempts (attempt + 1) (ar_error r)
        | Inl e \<Rightarrow> call_loop env prompt overrides attempts (attempt + 1) (Some (exc_str e))))"
  by pat_completeness auto
termination
  by (relation "measure (\<lambda>(env, p, ov, n, a, l). Suc n - a)") auto

definition call_api_with_retry ::
  "gen_env \<Rightarrow> string \<Rightarrow> (string \<times> pyval) list \<Rightarrow> bool \<Rightarrow> (string + api_response) \<times> nat" where
  "call_api_with_retry env prompt overrides retry_on_failure =
     call_loop env prompt overrides
       (if retry_on_failure then DEFAULT_RETRY_ATTEMPTS + 1 else 1) 1 None"

definition base_result :: "gen_env \<Rightarrow> string \<Rightarrow> (string \<times> pyval) list \<Rightarrow> result" where
  "base_result env template_name merged_variables =
     \<lparr>success = False, content = [], template_used = template_name, variables = merged_variables,
      timestamp = ge_timestamp env, request_id = ge_request_id env, model = [],
      tokens_used = \<lparr>prompt_tokens = 0, completion_tokens = 0, total_tokens = 0\<rparr>,
      cost = 0, cached = False, generation_time = 0, error = None\<rparr>"

text \<open>A branch that sets \<^verbatim>\<open>result['error']\<close>, records the attempt and returns.\<close>

definition give_up :: "string \<Rightarrow> result \<Rightarrow> generator \<Rightarrow> result \<times> generator" where
  "give_up msg r g = (let r' = r\<lparr>error := Some msg\<rparr> in (r', add_to_history r' g))"

definition invoke_callbacks :: "result \<Rightarrow> generator \<Rightarrow> generator" where
  "invoke_callbacks r g = g\<lparr>notified := notified g @ [r]\<rparr>"

text \<open>
  The cache hit: the dictionary returned by the cache is the one stored in it, so the four
  assignments change the stored entry as well; the history receives a copy.
\<close>

definition finish_hit :: "gen_env \<Rightarrow> string \<Rightarrow> result \<Rightarrow> generator \<Rightarrow> result \<times> generator" where
  "finish_hit env cache_key cached_result g =
     (let r = cached_result\<lparr>request_id := ge_request_id env, timestamp := ge_timestamp env,
                            cached := True, generation_time := ge_elapsed env\<rparr>;
          g1 = g\<lparr>cache_hits := cache_hits g + 1,
                 cache := AList.map_entry cache_key (\<lambda>e. e\<lparr>data := r\<rparr>) (cache g)\<rparr>
      in (r, invoke_callbacks r (add_to_history r g1)))"

definition finish_success ::
  "deps \<Rightarrow> gen_env \<Rightarrow> string \<Rightarrow> result \<Rightarrow> api_response \<Rightarrow> generator \<Rightarrow> result \<times> generator" where
  "finish_success d env cache_key r0 api_result g =
     (let r = r0\<lparr>success := True, content := sanitize_output d (ar_content api_result),
                  model := ar_model api_result, tokens_used := ar_tokens_used api_result,
                  cost := ar_cost api_result, cached := False, generation_time := ge_elapsed env\<rparr>;
          g1 = g\<lparr>session_total_cost := session_total_cost g + cost r\<rparr>;
          g2 = lru_set (ge_set_now env) (ge_set_now' env) cache_key r g1
      in (r, invoke_callbacks r (add_to_history r g2)))"

text \<open>The template's recommendations fill in the overrides the caller did not give.\<close>

definition with_recommendations ::
  "deps \<Rightarrow> prompt_template \<Rightarrow> (string \<times> pyval) list \<Rightarrow> (string \<times> pyval) list" where
  "with_recommendations d t overrides =
     (let o1 = (if map_of overrides ''temperature'' = None
                then AList.update ''temperature''
                       (PFloat (Some (temperature_recommendation t))
                               (lib_float_str d (temperature_recommendation t))) overrides
                else overrides)
      in if map_of o1 ''max_tokens'' = None
         then AList.update ''max_tokens'' (PInt (max_tokens_recommendation t)) o1
         else o1)"

text \<open>The part of \<^verbatim>\<open>generate\<close> after the prompt has been rendered.\<close>

definition generate_rendered ::
  "deps \<Rightarrow> gen_env \<Rightarrow> generator \<Rightarrow> string \<Rightarrow> (string \<times> pyval) list \<Rightarrow> (string \<times> pyval) list \<Rightarrow>
   bool \<Rightarrow> bool \<Rightarrow> result \<Rightarrow> prompt_template \<Rightarrow> string \<Rightarrow> result \<times> generator" where
  "generate_rendered d env g template_name merged api_overrides use_cache retry_on_failure r0 t prompt_text =
     (let cache_key = generate_cache_key d template_name merged;
          g1 = g\<lparr>cache_checks := cache_checks g + 1\<rparr>;
          (hit, g2) = (if use_cache then lru_get (ge_now env) cache_key g1 else (None, g1))
      in case hit of
           Some cached_result \<Rightarrow> finish_hit env cache_key cached_result g2
         | None \<Rightarrow>
             if \<not> has_api_manager g2 then give_up ''API manager not initialized'' r0 g2
             else
               let (api_result, n) = call_api_with_retry env prompt_text
                                       (with_recommendations d t api_overrides) retry_on_failure;
                   g3 = g2\<lparr>remote_calls := remote_calls g2 + n\<rparr>
               in case api_result of
                    Inl err \<Rightarrow> give_up err (r0\<lparr>generation_time := ge_elapsed env\<rparr>) g3
                  | Inr ar \<Rightarrow> finish_success d env cache_key r0 ar g3)"

text \<open>
  The body of the \<^verbatim>\<open>try\<close> block: on the left an exception that reaches the final
  \<^verbatim>\<open>except Exception\<close> clause, with the state at that moment.
\<close>

definition generate_try ::
  "deps \<Rightarrow> gen_env \<Rightarrow> generator \<Rightarrow> string \<Rightarrow> (string \<times> pyval) list \<Rightarrow> (string \<times> pyval) list \<Rightarrow>
   bool \<Rightarrow> bool \<Rightarrow> result \<Rightarrow> (pyexc \<times> generator) + (result \<times> generator)" where
  "generate_try d env g template_name merged api_overrides use_cache retry_on_failure r0 =
     (case validate_input template_name merged of
        Some error_msg \<Rightarrow> Inr (give_up (''Validation failed: '' @ error_msg) r0 g)
      | None \<Rightarrow>
          (case get_template d template_name g of
             (Inl (TemplateNotFoundError m), g1) \<Rightarrow>
               Inr (give_up (''Template not found: '' @ template_name) r0 g1)
           | (Inl e, g1) \<Rightarrow> Inl (e, g1)
           | (Inr t, g1) \<Rightarrow>
               (case template_generate d t merged True True of
                  Inl (VariableValidationError m) \<Rightarrow>
                    Inr (give_up (''Variable validation failed: '' @ m) r0 g1)
                | Inl e \<Rightarrow> Inl (e, g1)
                | Inr prompt_text \<Rightarrow>
                    Inr (generate_rendered d env g1 template_name merged api_overrides
                           use_cache retry_on_failure r0 t prompt_text))))"

definition is_api_override :: "string \<Rightarrow> bool" where
  "is_api_override k = (k = ''temperature'' \<or> k = ''max_tokens'' \<or> k = ''model'')"

text \<open>\<^verbatim>\<open>d.update(kwargs)\<close>.\<close>

definition dict_update :: "('k \<times> 'v) list \<Rightarrow> ('k \<times> 'v) list \<Rightarrow> ('k \<times> 'v) list" where
  "dict_update d kvs = fold (\<lambda>kv acc. AList.update (fst kv) (snd kv) acc) kvs d"

text \<open>
  \<^verbatim>\<open>ContentGenerator.generate(template_name, variables, use_cache, retry_on_failure, **kwargs)\<close>
  for an argument \<^verbatim>\<open>variables\<close> of its declared type \<^verbatim>\<open>Optional[Dict[str, Any]]\<close>: then
  \<^verbatim>\<open>dict(variables or {})\<close>, which stands before the \<^verbatim>\<open>try\<close> block, copies the dictionary
  and raises nothing. What the method does with another value is \<open>generate_any\<close> below.
\<close>

definition generate ::
  "deps \<Rightarrow> gen_env \<Rightarrow> generator \<Rightarrow> string \<Rightarrow> (string \<times> pyval) list option \<Rightarrow> bool \<Rightarrow> bool \<Rightarrow>
   (string \<times> pyval) list \<Rightarrow> result \<times> generator" where
  "generate d env g template_name vars use_cache retry_on_failure kwargs =
     (let api_overrides = filter (\<lambda>kv. is_api_override (fst kv)) kwargs;
          merged = dict_update (case vars of None \<Rightarrow> [] | Some vs \<Rightarrow> vs)
                     (filter (\<lambda>kv. \<not> is_api_override (fst kv)) kwargs);
          r0 = base_result env template_name merged
      in case generate_try d env g template_name merged api_overrides use_cache retry_on_failure r0 of
           Inr done \<Rightarrow> done
         | Inl (e, g') \<Rightarrow>
             give_up (''Unexpected error: '' @ exc_str e) (r0\<lparr>generation_time := ge_elapsed env\<rparr>) g')"

text \<open>
  The argument \<^verbatim>\<open>variables\<close> as a caller can pass it. The declared type is not checked:
  \<^verbatim>\<open>generate_batch\<close> and the batch route of the web interface hand over whatever value
  the request holds under \<^verbatim>\<open>variables\<close>. Lists are left out: \<^verbatim>\<open>dict\<close> of a list depends
  on each of its items.
\<close>

datatype pyarg =
    ANone
  | ADict "(string \<times> pyval) list"
  | AStr string
  | AInt int
  | ABool bool
  | AFloat "rat option"

text \<open>Python's truth value; the float \<open>None\<close> is NaN or an infinity, which are true.\<close>

definition arg_truthy :: "pyarg \<Rightarrow> bool" where
  "arg_truthy a =
     (case a of
        ANone \<Rightarrow> False
      | ADict kvs \<Rightarrow> kvs \<noteq> []
      | AStr s \<Rightarrow> s \<noteq> []
      | AInt i \<Rightarrow> i \<noteq> 0
      | ABool b \<Rightarrow> b
      | AFloat v \<Rightarrow> v \<noteq> Some 0)"

definition is_dict :: "pyarg \<Rightarrow> bool" where
  "is_dict a = (case a of ADict kvs \<Rightarrow> True | _ \<Rightarrow> False)"

text \<open>
  \<^verbatim>\<open>dict(variables or {})\<close>: a falsy value gives the empty dictionary, a dictionary its
  copy; a non-empty string is iterated character by character, and a one-character string is
  no key-value pair; a number is not iterable.
\<close>

definition dict_of_arg :: "pyarg \<Rightarrow> pyexc + (string \<times> pyval) list" where
  "dict_of_arg a =
     (if \<not> arg_truthy a then Inr []
      else case a of
          ANone \<Rightarrow> Inr []
        | ADict kvs \<Rightarrow> Inr kvs
        | AStr s \<Rightarrow>
            Inl (ValueError ''dictionary update sequence element #0 has length 1; 2 is required'')
        | AInt i \<Rightarrow> Inl (TypeError ([CHR 0x27] @ ''int' object is not iterable''))
        | ABool b \<Rightarrow> Inl (TypeError ([CHR 0x27] @ ''bool' object is not iterable''))
        | AFloat v \<Rightarrow> Inl (TypeError ([CHR 0x27] @ ''float' object is not iterable'')))"

text \<open>
  \<^verbatim>\<open>ContentGenerator.generate\<close> for any such argument. The conversion is the fourth
  statement of the method and no \<^verbatim>\<open>try\<close> encloses it: its exception goes to the caller,
  no record is built and the state is as before.
\<close>

definition generate_any ::
  "deps \<Rightarrow> gen_env \<Rightarrow> generator \<Rightarrow> string \<Rightarrow> pyarg \<Rightarrow> bool \<Rightarrow> bool \<Rightarrow>
   (string \<times> pyval) list \<Rightarrow> pyexc + (result \<times> generator)" where
  "generate_any d env g template_name vars use_cache retry_on_failure kwargs =
     (case dict_of_arg vars of
        Inl e \<Rightarrow> Inl e
      | Inr vs \<Rightarrow> Inr (generate d env g template_name (Some vs) use_cache retry_on_failure kwargs))"

subsection \<open>Statistics\<close>

record statistics =
  total_generations :: nat
  total_cost :: rat
  total_tokens_used :: int
  templates_used :: "(string \<times> nat) list"
  success_rate :: rat
  cache_hit_rate :: rat
  average_generation_time :: rat
  cost_by_template :: "(string \<times> rat) list"
  stats_session_id :: string
  stats_session_start :: string
  history_size :: "nat option"
  cache_size :: "nat option"

definition get_statistics :: "generator \<Rightarrow> statistics" where
  "get_statistics g =
     (let h = history g in
      if h = [] then
        \<lparr>total_generations = 0, total_cost = 0, total_tokens_used = 0, templates_used = [],
         success_rate = 0, cache_hit_rate = hit_rate g, average_generation_time = 0,
         cost_by_template = [], stats_session_id = session_id g,
         stats_session_start = session_start g, history_size = None, cache_size = None\<rparr>
      else
        let successful = filter success h;
            gen_times = filter (\<lambda>t. t > 0) (map generation_time h);
            avg_gen_time = (if gen_times = [] then 0 else sum_list gen_times / of_nat (length gen_times))
        in \<lparr>total_generations = length h,
            total_cost = py_round (sum_list (map cost h)) 6,
            total_tokens_used = sum_list (map (\<lambda>r. total_tokens (tokens_used r)) h),
            templates_used = fold (\<lambda>r acc. bump (template_used r) 0 acc (\<lambda>n. n + 1)) h [],
            success_rate = of_nat (length successful) / of_nat (length h) * 100,
            cache_hit_rate = hit_rate g,
            average_generation_time = py_round avg_gen_time 3,
            cost_by_template =
              map (\<lambda>kv. (fst kv, py_round (snd kv) 6))
                (fold (\<lambda>r acc. bump (template_used r) 0 acc (\<lambda>c. c + cost r)) h []),
            stats_session_id = session_id g,
            stats_session_start = session_start g,
            history_size = Some (length h),
            cache_size = Some (length (cache g))\<rparr>)"

subsection \<open>Construction and the states a generator can reach\<close>

definition new_generator :: "(string \<times> prompt_template) list \<Rightarrow> bool \<Rightarrow> string \<Rightarrow> string \<Rightarrow> generator" where
  "new_generator tpls api sid start =
     \<lparr>templates = tpls,
      active_templates = map fst (filter (\<lambda>kv. enabled (snd kv)) tpls),
      usage_stats = [], history = [], cache = [], hits = 0, misses = 0,
      cache_checks = 0, cache_hits = 0, session_total_cost = 0, has_api_manager = api,
      remote_calls = 0, notified = [], session_id = sid, session_start = start\<rparr>"

inductive reachable :: "deps \<Rightarrow> generator \<Rightarrow> bool" for d :: deps where
  fresh: "reachable d (new_generator tpls api sid start)"
| after_generate:
    "reachable d g \<Longrightarrow> reachable d (snd (generate d env g template_name vars use_cache retry kwargs))"
| after_clear_cache: "reachable d g \<Longrightarrow> reachable d (snd (clear_cache g))"
| after_clear_history: "reachable d g \<Longrightarrow> reachable d (snd (clear_history g))"
| after_register:
    "reachable d g \<Longrightarrow> register_template d t g = Inr (t', g') \<Longrightarrow> reachable d g'"

subsection \<open>Sequences of calls\<close>

text \<open>The arguments of one call of \<^verbatim>\<open>generate\<close>, with what it reads from outside.\<close>

record call =
  c_env :: gen_env
  c_template_name :: string
  c_variables :: "(string \<times> pyval) list option"
  c_use_cache :: bool
  c_retry_on_failure :: bool
  c_kwargs :: "(string \<times> pyval) list"

definition generate_call :: "deps \<Rightarrow> generator \<Rightarrow> call \<Rightarrow> result \<times> generator" where
  "generate_call d g c =
     generate d (c_env c) g (c_template_name c) (c_variables c) (c_use_cache c)
       (c_retry_on_failure c) (c_kwargs c)"

text \<open>The calls made one after the other: the results returned, in order, and the final state.\<close>

fun run_calls :: "deps \<Rightarrow> generator \<Rightarrow> call list \<Rightarrow> result list \<times> generator" where
  "run_calls d g [] = ([], g)"
| "run_calls d g (c # cs) =
     (let (r, g1) = generate_call d g c; (rs, g2) = run_calls d g1 cs in (r # rs, g2))"

declare trim_history.simps [simp del]
declare evict.simps [simp del]
declare call_loop.simps [simp del]

subsection \<open>Sample values for concrete instances\<close>

text \<open>
  Stand-ins for the library functions, a client that answers at once, and one call. They are
  used only to instantiate the statements below at concrete inputs.
\<close>

definition sample_deps :: deps where
  "sample_deps =
     \<lparr>lib_md5 = (\<lambda>s. s),
      lib_json_dumps = (\<lambda>vars. concat (map (\<lambda>kv. fst kv @ ''='' @ py_repr (snd kv) @ '';'') vars)),
      lib_float_str = (\<lambda>x. ''0.7''),
      lib_format_field = (\<lambda>s m. Inl (ValueError ''unsupported replacement field'')),
      sanitize_output = (\<lambda>s. s)\<rparr>"

definition sample_response :: api_response where
  "sample_response =
     \<lparr>ar_success = True, ar_content = ''ok'', ar_model = ''gpt-3.5-turbo'',
      ar_tokens_used = \<lparr>prompt_tokens = 3, completion_tokens = 1, total_tokens = 4\<rparr>,
      ar_cost = 1 / 1000, ar_timestamp = ''2024-01-01T12:00:00'', ar_request_id = ''req_1'',
      ar_finish_reason = ''stop'', ar_error = None, ar_latency_ms = 50\<rparr>"

definition sample_env :: gen_env where
  "sample_env =
     \<lparr>ge_request_id = ''req_1'', ge_timestamp = ''2024-01-01T12:00:00'', ge_now = 0,
      ge_set_now = 0, ge_set_now' = 0, ge_elapsed = 1 / 10,
      ge_api = (\<lambda>k prompt overrides. Inr sample_response)\<rparr>"

definition sample_call :: call where
  "sample_call =
     \<lparr>c_env = sample_env, c_template_name = ''product_description'',
      c_variables = Some [(''product_name'', PStr ''X'')], c_use_cache = True,
      c_retry_on_failure = True, c_kwargs = []\<rparr>"

subsection \<open>Invariants of the state\<close>

text \<open>
  A failure record as \<^verbatim>\<open>generate\<close> builds it: no cost, no content, a non-empty error
  text.
\<close>

definition failure_shaped :: "result \<Rightarrow> bool" where
  "failure_shaped r =
     (cost r = 0 \<and> content r = [] \<and> (case error r of None \<Rightarrow> False | Some e \<Rightarrow> e \<noteq> []))"

text \<open>Only successful results are stored in the cache.\<close>

definition cache_sound :: "generator \<Rightarrow> bool" where
  "cache_sound g = list_all (\<lambda>kv. success (data (snd kv))) (cache g)"

text \<open>Every failed entry of the history has cost zero.\<close>

definition history_sound :: "generator \<Rightarrow> bool" where
  "history_sound g = list_all (\<lambda>r. success r \<or> cost r = 0) (history g)"

subsection \<open>The built-in template product\_description\<close>

text \<open>The first entry of \<^verbatim>\<open>_create_builtin_templates\<close>, with the constructor's defaults.\<close>

definition product_description :: prompt_template where
  "product_description =
     \<lparr>name = ''product_description'',
      category = ''marketing'',
      template = ''Write a {tone} product description for {product_name}. ''
                 @ ''Key features: {features}. Target audience: {audience}. ''
                 @ ''Length: {length} words. Include a compelling call-to-action.'',
      system_instructions = ''You are an expert e-commerce copywriter'',
      default_tone = ''persuasive'',
      required_variables = [''product_name'', ''features'', ''audience''],
      optional_variables = [(''tone'', ''persuasive''), (''length'', ''100'')],
      max_tokens_recommendation = 300,
      temperature_recommendation = 7 / 10,
      version = ''1.0.0'',
      description = ''Generate compelling product descriptions for e-commerce'',
      tags = [''e-commerce'', ''copywriting'', ''product'', ''marketing''],
      ab_test_group = None,
      enabled = True\<rparr>"

text \<open>A generator holding this template, with a client, and a call that gives every variable.\<close>

definition sample_generator :: generator where
  "sample_generator =
     new_generator [(''product_description'', product_description)] True ''s1'' ''2024-01-01T12:00:00''"

definition full_call :: call where
  "full_call =
     \<lparr>c_env = sample_env, c_template_name = ''product_description'',
      c_variables = Some [(''product_name'', PStr ''X''), (''features'', PStr ''GPS''),
                          (''audience'', PStr ''Athletes'')],
      c_use_cache = True, c_retry_on_failure = True, c_kwargs = []\<rparr>"

subsection \<open>What registration checks, in the words of its error messages\<close>

text \<open>
  The conditions under which \<^verbatim>\<open>_validate_template\<close> raises nothing, stated on their own:
  a name of 1 to 100 characters, a body of 1 to 10000 characters, a temperature between 0 and
  2, at least one token.
\<close>

definition structurally_valid :: "prompt_template \<Rightarrow> bool" where
  "structurally_valid t =
     (name t \<noteq> [] \<and> length (name t) \<le> 100 \<and> template t \<noteq> [] \<and> length (template t) \<le> 10000
      \<and> 0 \<le> temperature_recommendation t \<and> temperature_recommendation t \<le> 2
      \<and> 1 \<le> max_tokens_recommendation t)"

text \<open>A template whose name has characters outside \<^verbatim>\<open>[A-Za-z0-9_]\<close>.\<close>

definition bad_name_template :: prompt_template where
  "bad_name_template = product_description\<lparr>name := ''bad-name!''\<rparr>"

text \<open>
  A field name that \<^verbatim>\<open>str.format\<close> looks up among the keyword arguments as it stands: not
  empty, not a number, without braces, brackets, colon, exclamation mark or dot.
\<close>

definition plain_name :: "string \<Rightarrow> bool" where
  "plain_name k = (k \<noteq> [] \<and> \<not> list_all is_digit k \<and> list_all (\<lambda>c. c \<notin> set ''{}[:!.'') k)"

subsection \<open>The cache key of a call\<close>

text \<open>
  The variables of a call after the keyword arguments other than the three overrides have
  been merged in, and the key under which \<^verbatim>\<open>generate\<close> looks the call up in the cache.
\<close>

definition merged_variables :: "(string \<times> pyval) list option \<Rightarrow> (string \<times> pyval) list \<Rightarrow> (string \<times> pyval) list" where
  "merged_variables vars kwargs =
     dict_update (case vars of None \<Rightarrow> [] | Some vs \<Rightarrow> vs)
       (filter (\<lambda>kv. \<not> is_api_override (fst kv)) kwargs)"

definition request_key :: "deps \<Rightarrow> string \<Rightarrow> (string \<times> pyval) list option \<Rightarrow> (string \<times> pyval) list \<Rightarrow> string" where
  "request_key d template_name vars kwargs =
     generate_cache_key d template_name (merged_variables vars kwargs)"

text \<open>A cache with entries belongs to a generator that has a client.\<close>

definition api_sound :: "generator \<Rightarrow> bool" where
  "api_sound g = (cache g = [] \<or> has_api_manager g)"

section \<open>Properties of the remote client wrapper\<close>

lemma nat_to_dec_3: "nat_to_dec 3 = ''3''"
  by (simp add: nat_to_dec.simps digit_char_def)

lemma retry_three:
  "retry_with_backoff 3 d m R f =
    (case f 0 of Inr v \<Rightarrow> \<lparr>rr_outcome = Inr v, rr_sleeps = [], rr_calls = 1\<rparr>
     | Inl e0 \<Rightarrow> if \<not> R e0 then \<lparr>rr_outcome = Inl e0, rr_sleeps = [], rr_calls = 1\<rparr> else
    (case f 1 of Inr v \<Rightarrow> \<lparr>rr_outcome = Inr v, rr_sleeps = [d], rr_calls = 2\<rparr>
     | Inl e1 \<Rightarrow> if \<not> R e1 then \<lparr>rr_outcome = Inl e1, rr_sleeps = [d], rr_calls = 2\<rparr> else
    (case f 2 of Inr v \<Rightarrow> \<lparr>rr_outcome = Inr v, rr_sleeps = [d, d * m], rr_calls = 3\<rparr>
     | Inl e2 \<Rightarrow> if \<not> R e2 then \<lparr>rr_outcome = Inl e2, rr_sleeps = [d, d * m], rr_calls = 3\<rparr> else
       \<lparr>rr_outcome = Inl (retry_exhausted 3 (Some e2)), rr_sleeps = [d, d * m], rr_calls = 3\<rparr>)))"
  by (simp add: retry_with_backoff_def retry_loop.simps eval_nat_numeral split: sum.splits)

lemma body_retryable:
  "make_api_call_body t r = Inl e \<Longrightarrow> retryable_exceptions e \<Longrightarrow> r = Inl e"
  unfolding make_api_call_body_def retryable_exceptions_def
  by (auto split: sum.splits pyexc.splits if_splits)

lemma body_transient: "is_transient r \<Longrightarrow> make_api_call_body t r = r"
  unfolding make_api_call_body_def is_transient_def
  by (auto split: sum.splits pyexc.splits)

lemma retryable_transient: "retryable_exceptions e = is_transient (Inl e :: pyexc + (completion \<times> rat))"
  unfolding retryable_exceptions_def is_transient_def
  by (auto split: pyexc.splits)

lemma body_auth: "make_api_call_body t (Inl (AuthenticationError m)) = Inl (APIKeyInvalidError (''Invalid API key: '' @ m))"
  by (simp add: make_api_call_body_def)

lemma body_retry_src:
  "make_api_call_body t r = Inl e \<Longrightarrow> retryable_exceptions e \<Longrightarrow> is_transient r"
  using body_retryable[of t r e] retryable_transient[of e] by (simp add: is_transient_def)

lemma transient_retry:
  "is_transient r \<Longrightarrow> \<exists>e. make_api_call_body t r = Inl e \<and> retryable_exceptions e"
  unfolding make_api_call_body_def is_transient_def retryable_exceptions_def
  by (auto split: sum.splits pyexc.splits)

lemma auth_not_transient: "\<not> is_transient (Inl (AuthenticationError m))"
  by (simp add: is_transient_def)

lemma key_not_retryable: "\<not> retryable_exceptions (APIKeyInvalidError m)"
  by (simp add: retryable_exceptions_def)

lemma exhausted_rate: "retry_exhausted 3 (Some (RateLimitError m)) = RateLimitExceeded ''Rate limit exceeded after 3 attempts''"
  by (simp add: retry_exhausted_def nat_to_dec_3)

lemma exhausted_conn: "retry_exhausted 3 (Some (APIConnectionError m)) = APIConnectionFailed ''Connection failed after 3 attempts''"
  by (simp add: retry_exhausted_def nat_to_dec_3)

lemma body_cases:
  "(is_transient r \<and> (\<exists>e. make_api_call_body t r = Inl e \<and> retryable_exceptions e \<and> r = Inl e))
   \<or> (\<not> is_transient r \<and> (\<forall>e. make_api_call_body t r = Inl e \<longrightarrow> \<not> retryable_exceptions e))"
  using transient_retry[of r t] body_retry_src[of t r] body_retryable[of t r] by blast

lemma run_cases:
  fixes timeout client
  defines "run \<equiv> make_api_call timeout client"
  shows "(\<not> is_transient (client 0) \<and> rr_calls run = 1 \<and> rr_sleeps run = []
            \<and> rr_outcome run = make_api_call_body timeout (client 0))
       \<or> (is_transient (client 0) \<and> \<not> is_transient (client 1) \<and> rr_calls run = 2 \<and> rr_sleeps run = [2]
            \<and> rr_outcome run = make_api_call_body timeout (client 1))
       \<or> (is_transient (client 0) \<and> is_transient (client 1) \<and> \<not> is_transient (client 2)
            \<and> rr_calls run = 3 \<and> rr_sleeps run = [2, 4]
            \<and> rr_outcome run = make_api_call_body timeout (client 2))
       \<or> (is_transient (client 0) \<and> is_transient (client 1) \<and> is_transient (client 2)
            \<and> rr_calls run = 3 \<and> rr_sleeps run = [2, 4]
            \<and> (\<exists>e. client 2 = Inl e \<and> rr_outcome run = Inl (retry_exhausted 3 (Some e))))"
proof -
  define f where "f = (\<lambda>k. make_api_call_body timeout (client k))"
  have run: "run = retry_with_backoff 3 2 2 retryable_exceptions f"
    by (simp add: run_def make_api_call_def f_def MAX_RETRY_ATTEMPTS_def BASE_RETRY_DELAY_def
        RETRY_BACKOFF_MULTIPLIER_def)
  have c0: "(is_transient (client 0) \<and> (\<exists>e. f 0 = Inl e \<and> retryable_exceptions e \<and> client 0 = Inl e))
   \<or> (\<not> is_transient (client 0) \<and> (\<forall>e. f 0 = Inl e \<longrightarrow> \<not> retryable_exceptions e))"
    unfolding f_def by (rule body_cases)
  have c1: "(is_transient (client 1) \<and> (\<exists>e. f 1 = Inl e \<and> retryable_exceptions e \<and> client 1 = Inl e))
   \<or> (\<not> is_transient (client 1) \<and> (\<forall>e. f 1 = Inl e \<longrightarrow> \<not> retryable_exceptions e))"
    unfolding f_def by (rule body_cases)
  have c2: "(is_transient (client 2) \<and> (\<exists>e. f 2 = Inl e \<and> retryable_exceptions e \<and> client 2 = Inl e))
   \<or> (\<not> is_transient (client 2) \<and> (\<forall>e. f 2 = Inl e \<longrightarrow> \<not> retryable_exceptions e))"
    unfolding f_def by (rule body_cases)
  have f0: "make_api_call_body timeout (client 0) = f 0" by (simp add: f_def)
  have f1: "make_api_call_body timeout (client 1) = f 1" by (simp add: f_def)
  have f2: "make_api_call_body timeout (client 2) = f 2" by (simp add: f_def)
  show ?thesis
  proof (cases "is_transient (client 0)")
    case False
    with c0 have n: "\<forall>e. f 0 = Inl e \<longrightarrow> \<not> retryable_exceptions e" by blast
    show ?thesis unfolding run retry_three f0 using False n
      by (cases "f 0") simp_all
  next
    case t0: True
    with c0 obtain e0 where e0: "f 0 = Inl e0" "retryable_exceptions e0" by blast
    show ?thesis
    proof (cases "is_transient (client 1)")
      case False
      with c1 have n: "\<forall>e. f 1 = Inl e \<longrightarrow> \<not> retryable_exceptions e" by blast
      show ?thesis unfolding run retry_three f1 using t0 False n e0
        by (cases "f 1") simp_all
    next
      case t1: True
      with c1 obtain e1 where e1: "f 1 = Inl e1" "retryable_exceptions e1" by blast
      show ?thesis
      proof (cases "is_transient (client 2)")
        case False
        with c2 have n: "\<forall>e. f 2 = Inl e \<longrightarrow> \<not> retryable_exceptions e" by blast
        show ?thesis unfolding run retry_three f2 using t0 t1 False n e0 e1
          by (cases "f 2") simp_all
      next
        case t2: True
        with c2 obtain e2 where e2: "f 2 = Inl e2" "retryable_exceptions e2" "client 2 = Inl e2" by blast
        show ?thesis unfolding run retry_three using t0 t1 t2 e0 e1 e2 by simp
      qed
    qed
  qed
qed

lemma all_less_3: "(\<forall>k<3. P k) = (P 0 \<and> P 1 \<and> P (2::nat))"
  by (auto simp: less_Suc_eq eval_nat_numeral)

lemma suc_less_cases:
  "(\<forall>k. Suc k < 1 \<longrightarrow> P k) = True"
  "(\<forall>k. Suc k < 2 \<longrightarrow> P k) = P 0"
  "(\<forall>k. Suc k < 3 \<longrightarrow> P k) = (P 0 \<and> P 1)"
  by (auto simp: less_Suc_eq eval_nat_numeral)

lemma less_cases:
  "(\<forall>k. k < 1 \<longrightarrow> P k) = P 0"
  "(\<forall>k. k < 2 \<longrightarrow> P k) = (P 0 \<and> P 1)"
  "(\<forall>k. k < 3 \<longrightarrow> P k) = (P 0 \<and> P 1 \<and> P (2::nat))"
  by (auto simp: less_Suc_eq eval_nat_numeral)

lemma transient_not_auth: "is_transient r \<Longrightarrow> r \<noteq> Inl (AuthenticationError m)"
  by (auto simp: is_transient_def)

text \<open>
  Claim C6. The network call is retried only after a transient failure (rate limit,
  connection failure), at most 3 attempts are made, the pauses are 2 s and then 4 s
  (base 2, factor 2), an authentication failure ends the call at once with
  \<^verbatim>\<open>APIKeyInvalidError\<close>, and three transient failures in a row end in
  \<^verbatim>\<open>RateLimitExceeded\<close> when the last one was a rate limit and in
  \<^verbatim>\<open>APIConnectionFailed\<close> when it was a connection failure.
\<close>

theorem make_api_call_retry_policy:
  "let run = make_api_call timeout client in
     1 \<le> rr_calls run \<and> rr_calls run \<le> 3
   \<and> (\<forall>k. Suc k < rr_calls run \<longrightarrow> is_transient (client k))
   \<and> rr_sleeps run = take (rr_calls run - 1) [2, 4]
   \<and> (\<forall>k. k < rr_calls run \<longrightarrow> (\<forall>m. client k = Inl (AuthenticationError m) \<longrightarrow>
        rr_calls run = Suc k \<and> rr_outcome run = Inl (APIKeyInvalidError (''Invalid API key: '' @ m))))
   \<and> ((\<forall>k<3. is_transient (client k)) \<longrightarrow> rr_calls run = 3
        \<and> (\<forall>m. client 2 = Inl (RateLimitError m) \<longrightarrow>
              rr_outcome run = Inl (RateLimitExceeded ''Rate limit exceeded after 3 attempts''))
        \<and> (\<forall>m. client 2 = Inl (APIConnectionError m) \<longrightarrow>
              rr_outcome run = Inl (APIConnectionFailed ''Connection failed after 3 attempts'')))"
proof -
  let ?run = "make_api_call timeout client"
  consider
      (one) "\<not> is_transient (client 0)" "rr_calls ?run = 1" "rr_sleeps ?run = []"
        "rr_outcome ?run = make_api_call_body timeout (client 0)"
    | (two) "is_transient (client 0)" "\<not> is_transient (client 1)" "rr_calls ?run = 2"
        "rr_sleeps ?run = [2]" "rr_outcome ?run = make_api_call_body timeout (client 1)"
    | (three) "is_transient (client 0)" "is_transient (client 1)" "\<not> is_transient (client 2)"
        "rr_calls ?run = 3" "rr_sleeps ?run = [2, 4]"
        "rr_outcome ?run = make_api_call_body timeout (client 2)"
    | (exhausted) e where "is_transient (client 0)" "is_transient (client 1)" "is_transient (client 2)"
        "rr_calls ?run = 3" "rr_sleeps ?run = [2, 4]" "client 2 = Inl e"
        "rr_outcome ?run = Inl (retry_exhausted 3 (Some e))"
    using run_cases[of client timeout] by blast
  then show ?thesis
  proof cases
    case one
    then show ?thesis
      by (simp add: Let_def all_less_3 suc_less_cases less_cases body_auth)
  next
    case two
    then show ?thesis
      by (simp add: Let_def all_less_3 suc_less_cases less_cases body_auth transient_not_auth)
  next
    case three
    then show ?thesis
      by (simp add: Let_def all_less_3 suc_less_cases less_cases body_auth transient_not_auth)
  next
    case exhausted
    have "\<And>m. client 2 \<noteq> Inl (AuthenticationError m)"
      using exhausted(3) transient_not_auth by blast
    with exhausted show ?thesis
      by (auto simp: Let_def all_less_3 suc_less_cases less_cases transient_not_auth
          exhausted_rate exhausted_conn)
  qed
qed

lemma run_auth: "make_api_call 30 (\<lambda>k. Inl (AuthenticationError ''401'')) =
    \<lparr>rr_outcome = Inl (APIKeyInvalidError ''Invalid API key: 401''), rr_sleeps = [], rr_calls = 1\<rparr>"
  by (simp add: make_api_call_def MAX_RETRY_ATTEMPTS_def BASE_RETRY_DELAY_def
        RETRY_BACKOFF_MULTIPLIER_def retry_three make_api_call_body_def retryable_exceptions_def)

lemma run_rate: "make_api_call 30 (\<lambda>k. Inl (RateLimitError ''429'')) =
    \<lparr>rr_outcome = Inl (RateLimitExceeded ''Rate limit exceeded after 3 attempts''), rr_sleeps = [2, 4], rr_calls = 3\<rparr>"
  by (simp add: make_api_call_def MAX_RETRY_ATTEMPTS_def BASE_RETRY_DELAY_def
        RETRY_BACKOFF_MULTIPLIER_def retry_three make_api_call_body_def retryable_exceptions_def exhausted_rate)

theorem make_api_call_retry_policy_witness:
  "is_transient (Inl (RateLimitError ''429'') :: pyexc + (completion \<times> rat))
   \<and> rr_calls (make_api_call 30 (\<lambda>k. Inl (RateLimitError ''429''))) = 3
   \<and> rr_sleeps (make_api_call 30 (\<lambda>k. Inl (RateLimitError ''429''))) = [2, 4]
   \<and> rr_outcome (make_api_call 30 (\<lambda>k. Inl (RateLimitError ''429''))) =
       Inl (RateLimitExceeded ''Rate limit exceeded after 3 attempts'')
   \<and> rr_calls (make_api_call 30 (\<lambda>k. Inl (AuthenticationError ''401''))) = 1
   \<and> rr_outcome (make_api_call 30 (\<lambda>k. Inl (AuthenticationError ''401''))) =
       Inl (APIKeyInvalidError ''Invalid API key: 401'')"
proof -
  have tr: "\<forall>k<3::nat. is_transient ((\<lambda>k. Inl (RateLimitError ''429'') :: pyexc + (completion \<times> rat)) k)"
    by (simp add: is_transient_def)
  from make_api_call_retry_policy [of 30 "\<lambda>k. Inl (RateLimitError ''429'')"]
    make_api_call_retry_policy [of 30 "\<lambda>k. Inl (AuthenticationError ''401'')"] tr
  show ?thesis by (simp add: Let_def run_rate run_auth)
qed

subsection \<open>Defaults replace zero arguments\<close>

lemma check_cache_keeps:
  "mg_requests (snd (check_cache now key m)) = mg_requests m"
  "mg_temperature (snd (check_cache now key m)) = mg_temperature m"
  "mg_max_tokens (snd (check_cache now key m)) = mg_max_tokens m"
  by (auto simp: check_cache_def split: option.splits prod.splits)

lemma requests_sent_cases:
  "requests_sent env m prompt max_tokens temperature system_message use_cache = []
   \<or> (\<exists>k mdl msgs. requests_sent env m prompt max_tokens temperature system_message use_cache =
        replicate k \<lparr>rq_model = mdl, rq_messages = msgs,
                     rq_max_tokens = py_or max_tokens (mg_max_tokens m),
                     rq_temperature = py_or temperature (mg_temperature m)\<rparr>)"
proof (cases "use_cache")
  case True
  obtain c m2 where cc: "check_cache (me_now env) (get_cache_key env prompt system_message (mg_model m))
      (m\<lparr>mg_request_counter := mg_request_counter m + 1\<rparr>) = (c, m2)"
    by (cases "check_cache (me_now env) (get_cache_key env prompt system_message (mg_model m))
      (m\<lparr>mg_request_counter := mg_request_counter m + 1\<rparr>)") auto
  have k: "mg_requests m2 = mg_requests m"
    using check_cache_keeps(1)[of "me_now env" "get_cache_key env prompt system_message (mg_model m)"
        "m\<lparr>mg_request_counter := mg_request_counter m + 1\<rparr>"] cc by simp
  show ?thesis
    using True cc k
    by (auto simp: requests_sent_def generate_content_def Let_def
        split: option.splits sum.splits)
next
  case False
  then show ?thesis
    by (auto simp: requests_sent_def generate_content_def Let_def
        split: option.splits sum.splits)
qed

text \<open>
  Claim C9. A \<^verbatim>\<open>temperature\<close> of 0.0 or a \<^verbatim>\<open>max_tokens\<close> of 0 passed to
  \<^verbatim>\<open>generate_content\<close> is replaced by the manager's default in every request handed to the
  client, so a request carries temperature 0 only when the manager's default is 0.
\<close>

theorem generate_content_zero_replaced:
  "\<forall>r \<in> set (requests_sent env m prompt max_tokens temperature system_message use_cache).
      (temperature = Some 0 \<longrightarrow> rq_temperature r = mg_temperature m)
    \<and> (max_tokens = Some 0 \<longrightarrow> rq_max_tokens r = mg_max_tokens m)
    \<and> (rq_temperature r = 0 \<longrightarrow> mg_temperature m = 0)"
  using requests_sent_cases[of env m prompt max_tokens temperature system_message use_cache]
  by (auto simp: py_or_def split: option.splits if_splits)

lemma new_manager_sel:
  "mg_temperature (new_manager ''gpt-3.5-turbo'' 2000 (7 / 10) 30) = 7 / 10"
  "mg_max_tokens (new_manager ''gpt-3.5-turbo'' 2000 (7 / 10) 30) = 2000"
  by (simp_all add: new_manager_def)

lemma demo_requests:
  "requests_sent demo_env (new_manager ''gpt-3.5-turbo'' 2000 (7 / 10) 30) ''hi'' (Some 0) (Some 0) None False =
     [\<lparr>rq_model = ''gpt-3.5-turbo'', rq_messages = [(''user'', ''hi'')], rq_max_tokens = 2000,
       rq_temperature = 7 / 10\<rparr>]"
  by (simp add: requests_sent_def generate_content_def new_manager_def demo_env_def Let_def
      py_strip_def py_isspace_def isspace_code_def py_or_def build_messages_def make_api_call_def retry_three
      MAX_RETRY_ATTEMPTS_def BASE_RETRY_DELAY_def RETRY_BACKOFF_MULTIPLIER_def
      make_api_call_body_def extract_response_def)

theorem generate_content_zero_replaced_witness:
  "requests_sent demo_env (new_manager ''gpt-3.5-turbo'' 2000 (7 / 10) 30) ''hi'' (Some 0) (Some 0) None False \<noteq> []
   \<and> rq_temperature (hd (requests_sent demo_env (new_manager ''gpt-3.5-turbo'' 2000 (7 / 10) 30)
        ''hi'' (Some 0) (Some 0) None False)) = 7 / 10
   \<and> rq_max_tokens (hd (requests_sent demo_env (new_manager ''gpt-3.5-turbo'' 2000 (7 / 10) 30)
        ''hi'' (Some 0) (Some 0) None False)) = 2000"
  using generate_content_zero_replaced [of demo_env "new_manager ''gpt-3.5-turbo'' 2000 (7 / 10) 30"
      "''hi''" "Some 0" "Some 0" None False]
  by (simp add: demo_requests new_manager_sel)

section \<open>Properties of the history\<close>

lemma trim_history_drop: "trim_history h = drop (length h - MAX_HISTORY_SIZE) h"
proof (induction h rule: trim_history.induct)
  case (1 h)
  show ?case
  proof (cases "length h > MAX_HISTORY_SIZE")
    case True
    then obtain x t where h: "h = x # t" by (cases h) auto
    have "trim_history h = trim_history t"
      using True h by (subst trim_history.simps) simp
    also have "\<dots> = drop (length t - MAX_HISTORY_SIZE) t"
      using "1.IH" True h by simp
    also have "\<dots> = drop (length h - MAX_HISTORY_SIZE) h"
      using True h by (simp add: Suc_diff_le)
    finally show ?thesis .
  next
    case False
    then show ?thesis by (subst trim_history.simps) simp
  qed
qed

lemma length_trim_history: "length (trim_history h) \<le> MAX_HISTORY_SIZE"
  by (simp add: trim_history_drop)

lemma history_give_up:
  "history (snd (give_up msg r g)) = trim_history (history g @ [fst (give_up msg r g)])"
  by (simp add: give_up_def add_to_history_def Let_def)

lemma history_lru_get: "history (snd (lru_get now key g)) = history g"
  by (simp add: lru_get_def split: option.splits)

lemma history_finish_hit:
  "history (snd (finish_hit env key c g)) = trim_history (history g @ [fst (finish_hit env key c g)])"
  by (simp add: finish_hit_def add_to_history_def invoke_callbacks_def Let_def)

lemma history_finish_success:
  "history (snd (finish_success d env key r0 ar g)) =
     trim_history (history g @ [fst (finish_success d env key r0 ar g)])"
  by (simp add: finish_success_def add_to_history_def invoke_callbacks_def lru_set_def Let_def)

lemma history_get_template: "history (snd (get_template d nm g)) = history g"
  by (simp add: get_template_def split: option.splits)

lemma history_generate_rendered:
  "history (snd (generate_rendered d env g nm merged ov uc rt r0 t p)) =
     trim_history (history g @ [fst (generate_rendered d env g nm merged ov uc rt r0 t p)])"
proof -
  obtain hit g2 where lg: "(if uc then lru_get (ge_now env) (generate_cache_key d nm merged)
        (g\<lparr>cache_checks := cache_checks g + 1\<rparr>) else (None, g\<lparr>cache_checks := cache_checks g + 1\<rparr>)) = (hit, g2)"
    by (metis surj_pair)
  have h2: "history g2 = history g"
    using lg history_lru_get[of "ge_now env" "generate_cache_key d nm merged" "g\<lparr>cache_checks := cache_checks g + 1\<rparr>"]
    by (auto split: if_splits)
  obtain res n where ca: "call_api_with_retry env p (with_recommendations d t ov) rt = (res, n)"
    by (metis surj_pair)
  show ?thesis
    unfolding generate_rendered_def Let_def lg ca
    using h2 history_finish_hit[of env _ _ g2] history_give_up[of _ _ g2]
      history_give_up[of _ _ "g2\<lparr>remote_calls := remote_calls g2 + n\<rparr>"]
      history_finish_success[of d env _ r0 _ "g2\<lparr>remote_calls := remote_calls g2 + n\<rparr>"]
    by (simp split: option.splits sum.splits)
qed

lemma history_generate_try:
  "(\<forall>r g'. generate_try d env g nm merged ov uc rt r0 = Inr (r, g') \<longrightarrow>
       history g' = trim_history (history g @ [r]))
   \<and> (\<forall>e g'. generate_try d env g nm merged ov uc rt r0 = Inl (e, g') \<longrightarrow> history g' = history g)"
proof -
  obtain tr g1 where gt: "get_template d nm g = (tr, g1)" by (metis surj_pair)
  have h1: "history g1 = history g"
    using history_get_template[of d nm g] gt by simp
  show ?thesis
    unfolding generate_try_def gt
    using h1 history_give_up[of _ r0 g] history_give_up[of _ r0 g1]
      history_generate_rendered[of d env g1 nm merged ov uc rt r0]
    by (auto split: option.splits sum.splits pyexc.splits simp: prod_eq_iff)
qed

lemma history_generate:
  "history (snd (generate d env g nm vars uc rt kw)) =
     trim_history (history g @ [fst (generate d env g nm vars uc rt kw)])"
  unfolding generate_def Let_def
  using history_generate_try[of d env g nm] history_give_up
  by (auto split: sum.splits prod.splits)

lemma drop_window:
  "k = length xs - m \<Longrightarrow>
   drop (length (drop k xs @ ys) - m) (drop k xs @ ys) = drop (length (xs @ ys) - m) (xs @ ys)"
  by (cases "length xs \<le> m") (auto simp: drop_append add.commute)

lemma history_window:
  "length (history g) \<le> 1000 \<Longrightarrow>
     history (snd (run_calls d g calls)) =
       drop (length (history g @ fst (run_calls d g calls)) - 1000) (history g @ fst (run_calls d g calls))
     \<and> length (history (snd (run_calls d g calls))) \<le> 1000"
proof (induction calls arbitrary: g)
  case Nil
  then show ?case by simp
next
  case (Cons c cs)
  obtain r g1 where gc: "generate_call d g c = (r, g1)" by (metis surj_pair)
  obtain rs g2 where rn: "run_calls d g1 cs = (rs, g2)" by (metis surj_pair)
  have h1: "history g1 = drop (length (history g @ [r]) - 1000) (history g @ [r])"
    using history_generate[of d "c_env c" g "c_template_name c" "c_variables c" "c_use_cache c"
        "c_retry_on_failure c" "c_kwargs c"] gc
    by (simp add: generate_call_def trim_history_drop MAX_HISTORY_SIZE_def)
  then have l1: "length (history g1) \<le> 1000" by simp
  from Cons.IH[OF l1] rn
  have ih: "history g2 = drop (length (history g1 @ rs) - 1000) (history g1 @ rs)"
    and l2: "length (history g2) \<le> 1000" by simp_all
  have "drop (length (history g1 @ rs) - 1000) (history g1 @ rs)
        = drop (length ((history g @ [r]) @ rs) - 1000) ((history g @ [r]) @ rs)"
    unfolding h1 by (rule drop_window) simp
  with ih l2 show ?case by (simp add: gc rn)
qed

lemma length_run_calls: "length (fst (run_calls d g calls)) = length calls"
  by (induction calls arbitrary: g) (auto simp: split_def Let_def)

text \<open>
  Claim C7. Starting from a history of at most 1000 entries, after any sequence of
  \<^verbatim>\<open>generate\<close> calls the history holds at most 1000 entries, and they are the last 1000
  of the old entries followed by the results of the calls, in call order; after 1000 calls or
  more they are the results of the last 1000 calls.
\<close>

theorem history_keeps_most_recent:
  "length (history g) \<le> 1000 \<Longrightarrow>
     length (history (snd (run_calls d g calls))) \<le> 1000
     \<and> history (snd (run_calls d g calls)) =
         drop (length (history g @ fst (run_calls d g calls)) - 1000) (history g @ fst (run_calls d g calls))
     \<and> length (fst (run_calls d g calls)) = length calls
     \<and> (1000 \<le> length calls \<longrightarrow>
          history (snd (run_calls d g calls)) = drop (length calls - 1000) (fst (run_calls d g calls)))"
  using history_window[of g d calls] length_run_calls[of d g calls]
  by (auto simp: drop_append)

theorem history_keeps_most_recent_witness:
  "length (history (new_generator [] True ''s1'' ''2024-01-01T12:00:00'')) \<le> 1000
   \<and> length (history (snd (run_calls sample_deps (new_generator [] True ''s1'' ''2024-01-01T12:00:00'')
         [sample_call, sample_call]))) \<le> 1000
   \<and> history (snd (run_calls sample_deps (new_generator [] True ''s1'' ''2024-01-01T12:00:00'')
         [sample_call, sample_call]))
       = fst (run_calls sample_deps (new_generator [] True ''s1'' ''2024-01-01T12:00:00'')
         [sample_call, sample_call])"
proof -
  have l: "length (fst (run_calls sample_deps (new_generator [] True ''s1'' ''2024-01-01T12:00:00'')
         [sample_call, sample_call])) = 2"
    by (simp add: split_def Let_def)
  from history_keeps_most_recent [of "new_generator [] True ''s1'' ''2024-01-01T12:00:00''"
      sample_deps "[sample_call, sample_call]"] l
  show ?thesis by (simp add: new_generator_def)
qed

section \<open>Properties of the results and the statistics\<close>

lemma call_loop_message:
  "fst (call_loop env p ov n a le) = Inl m \<Longrightarrow> m \<noteq> []"
proof (induction env p ov n a le rule: call_loop.induct)
  case (1 env prompt overrides attempts attempt last_error)
  show ?case
  proof (cases "attempt > attempts")
    case True
    with "1.prems" show ?thesis by (subst (asm) call_loop.simps) auto
  next
    case False
    show ?thesis
    proof (cases "ge_api env (attempt - 1) prompt overrides")
      case (Inl e)
      with False "1.prems" "1.IH"(1)[OF False Inl] show ?thesis
        by (subst (asm) call_loop.simps) simp
    next
      case (Inr r)
      show ?thesis
      proof (cases "ar_success r")
        case True
        with False Inr "1.prems" show ?thesis
          by (subst (asm) call_loop.simps) simp
      next
        case nt: False
        with False Inr "1.prems" "1.IH"(2)[OF False Inr nt] show ?thesis
          by (subst (asm) call_loop.simps) simp
      qed
    qed
  qed
qed

lemma all_delete: "list_all P xs \<Longrightarrow> list_all P (AList.delete k xs)"
  by (induction xs) (auto simp: AList.delete_eq)

lemma all_map_of: "list_all P xs \<Longrightarrow> map_of xs k = Some e \<Longrightarrow> P (k, e)"
  by (induction xs) (auto split: if_splits)

lemma all_evict: "list_all P c \<Longrightarrow> list_all P (evict c)"
proof (induction c rule: evict.induct)
  case (1 c)
  show ?case
  proof (cases "length c \<ge> MAX_CACHE_SIZE")
    case True
    then have "c \<noteq> []" by (auto simp: MAX_CACHE_SIZE_def)
    then have "list_all P (tl c)" using "1.prems" by (cases c) auto
    with "1.IH"[OF True] True show ?thesis by (subst evict.simps) simp
  next
    case False
    with "1.prems" show ?thesis by (subst evict.simps) simp
  qed
qed

lemma all_map_entry:
  "list_all (\<lambda>kv. P (snd kv)) xs \<Longrightarrow> (\<And>e. P e \<Longrightarrow> P (f e)) \<Longrightarrow>
   list_all (\<lambda>kv. P (snd kv)) (AList.map_entry k f xs)"
  by (induction xs) auto

lemma lru_get_sound:
  "cache_sound g \<Longrightarrow> cache_sound (snd (lru_get now key g))"
  "cache_sound g \<Longrightarrow> fst (lru_get now key g) = Some r \<Longrightarrow> success r"
  using all_map_of[of "\<lambda>kv. success (data (snd kv))" "cache g" key]
  by (auto simp: lru_get_def cache_sound_def all_delete split: option.splits if_splits)

lemma cache_give_up: "cache (snd (give_up msg r g)) = cache g"
  by (simp add: give_up_def add_to_history_def Let_def)

lemma give_up_shape:
  "fst (give_up msg r g) = r\<lparr>error := Some msg\<rparr>"
  by (simp add: give_up_def Let_def)

lemma finish_hit_sound:
  "cache_sound g \<Longrightarrow> success c \<Longrightarrow> cache_sound (snd (finish_hit env key c g))"
  "success c \<Longrightarrow> success (fst (finish_hit env key c g))"
  using all_map_entry[of "\<lambda>e. success (data e)" "cache g"]
  by (auto simp: finish_hit_def cache_sound_def add_to_history_def invoke_callbacks_def Let_def)

lemma finish_success_sound:
  "cache_sound g \<Longrightarrow> cache_sound (snd (finish_success d env key r0 ar g))"
  "success (fst (finish_success d env key r0 ar g))"
  by (auto simp: finish_success_def cache_sound_def add_to_history_def invoke_callbacks_def
      lru_set_def Let_def all_evict all_delete)

lemma get_template_cache: "cache (snd (get_template d nm g)) = cache g"
  by (simp add: get_template_def split: option.splits)

lemma give_up_failure:
  "cost r = 0 \<Longrightarrow> content r = [] \<Longrightarrow> msg \<noteq> [] \<Longrightarrow> failure_shaped (fst (give_up msg r g))"
  by (simp add: give_up_def failure_shaped_def Let_def)

lemma give_up_sound: "cache_sound g \<Longrightarrow> cache_sound (snd (give_up msg r g))"
  by (simp add: cache_sound_def cache_give_up)

lemma generate_rendered_sound:
  assumes "cache_sound g" "cost r0 = 0" "content r0 = []"
  shows "cache_sound (snd (generate_rendered d env g nm merged ov uc rt r0 t p))
       \<and> (success (fst (generate_rendered d env g nm merged ov uc rt r0 t p))
          \<or> failure_shaped (fst (generate_rendered d env g nm merged ov uc rt r0 t p)))"
proof -
  let ?g1 = "g\<lparr>cache_checks := cache_checks g + 1\<rparr>"
  let ?key = "generate_cache_key d nm merged"
  obtain hit g2 where lg: "(if uc then lru_get (ge_now env) ?key ?g1 else (None, ?g1)) = (hit, g2)"
    by (metis surj_pair)
  have s1: "cache_sound ?g1" using assms(1) by (simp add: cache_sound_def)
  have s2: "cache_sound g2"
    using lg lru_get_sound(1)[OF s1, of "ge_now env" ?key] s1 by (auto split: if_splits)
  have sh: "\<And>c. hit = Some c \<Longrightarrow> success c"
    using lg lru_get_sound(2)[OF s1, of "ge_now env" ?key] by (auto split: if_splits)
  obtain res n where ca: "call_api_with_retry env p (with_recommendations d t ov) rt = (res, n)"
    by (metis surj_pair)
  have msg: "\<And>m. res = Inl m \<Longrightarrow> m \<noteq> []"
    using ca call_loop_message[of env p "with_recommendations d t ov"
        "if rt then DEFAULT_RETRY_ATTEMPTS + 1 else 1" 1 None]
    by (auto simp: call_api_with_retry_def)
  have s3: "cache_sound (g2\<lparr>remote_calls := remote_calls g2 + n\<rparr>)"
    using s2 by (simp add: cache_sound_def)
  show ?thesis
  proof (cases hit)
    case (Some c)
    then show ?thesis
      unfolding generate_rendered_def Let_def lg
      using finish_hit_sound(1)[OF s2 sh[OF Some], of env ?key] finish_hit_sound(2)[OF sh[OF Some], of env ?key g2]
      by simp
  next
    case None
    show ?thesis
    proof (cases "has_api_manager g2")
      case False
      then show ?thesis
        unfolding generate_rendered_def Let_def lg
        using None give_up_sound[OF s2] give_up_failure[OF assms(2,3), of "''API manager not initialized''" g2]
        by simp
    next
      case True
      show ?thesis
      proof (cases res)
        case (Inl m)
        have "failure_shaped (fst (give_up m (r0\<lparr>generation_time := ge_elapsed env\<rparr>)
                (g2\<lparr>remote_calls := remote_calls g2 + n\<rparr>)))"
          using assms(2,3) msg[OF Inl] by (intro give_up_failure) simp_all
        then show ?thesis
          unfolding generate_rendered_def Let_def lg ca
          using None True Inl give_up_sound[OF s3] by simp
      next
        case (Inr ar)
        then show ?thesis
          unfolding generate_rendered_def Let_def lg ca
          using None True finish_success_sound(1)[OF s3, of d env ?key r0 ar]
            finish_success_sound(2)[of d env ?key r0 ar "g2\<lparr>remote_calls := remote_calls g2 + n\<rparr>"]
          by simp
      qed
    qed
  qed
qed

lemma generate_try_sound:
  assumes "cache_sound g" "cost r0 = 0" "content r0 = []"
  shows "(\<forall>r g'. generate_try d env g nm merged ov uc rt r0 = Inr (r, g') \<longrightarrow>
            cache_sound g' \<and> (success r \<or> failure_shaped r))
       \<and> (\<forall>e g'. generate_try d env g nm merged ov uc rt r0 = Inl (e, g') \<longrightarrow> cache_sound g')"
proof -
  obtain tr g1 where gt: "get_template d nm g = (tr, g1)" by (metis surj_pair)
  have s1: "cache_sound g1"
    using get_template_cache[of d nm g] gt assms(1) by (simp add: cache_sound_def)
  have gu: "\<And>msg g0. msg \<noteq> [] \<Longrightarrow> cache_sound g0 \<Longrightarrow>
      cache_sound (snd (give_up msg r0 g0)) \<and> failure_shaped (fst (give_up msg r0 g0))"
    using give_up_sound give_up_failure[OF assms(2,3)] by simp
  have gr: "\<And>t p. cache_sound (snd (generate_rendered d env g1 nm merged ov uc rt r0 t p))
       \<and> (success (fst (generate_rendered d env g1 nm merged ov uc rt r0 t p))
          \<or> failure_shaped (fst (generate_rendered d env g1 nm merged ov uc rt r0 t p)))"
    by (rule generate_rendered_sound[OF s1 assms(2,3)])
  show ?thesis
    unfolding generate_try_def gt
    using s1 assms(1) gu[of _ g] gu[of _ g1] gr
    by (auto split: option.splits sum.splits pyexc.splits simp: prod_eq_iff)
qed

lemma generate_sound:
  assumes "cache_sound g"
  shows "cache_sound (snd (generate d env g nm vars uc rt kw))"
    and "success (fst (generate d env g nm vars uc rt kw))
          \<or> failure_shaped (fst (generate d env g nm vars uc rt kw))"
proof -
  let ?merged = "dict_update (case vars of None \<Rightarrow> [] | Some vs \<Rightarrow> vs)
                     (filter (\<lambda>kv. \<not> is_api_override (fst kv)) kw)"
  let ?r0 = "base_result env nm ?merged"
  have b: "cost ?r0 = 0" "content ?r0 = []" by (simp_all add: base_result_def)
  note ts = generate_try_sound[OF assms b, of d env nm ?merged "filter (\<lambda>kv. is_api_override (fst kv)) kw" uc rt]
  have gu: "\<And>e g'. cache_sound g' \<Longrightarrow>
      cache_sound (snd (give_up (''Unexpected error: '' @ exc_str e) (?r0\<lparr>generation_time := ge_elapsed env\<rparr>) g'))
    \<and> failure_shaped (fst (give_up (''Unexpected error: '' @ exc_str e) (?r0\<lparr>generation_time := ge_elapsed env\<rparr>) g'))"
    using b by (simp add: give_up_sound give_up_failure)
  show "cache_sound (snd (generate d env g nm vars uc rt kw))"
    unfolding generate_def Let_def using ts gu
    by (auto split: sum.splits prod.splits)
  show "success (fst (generate d env g nm vars uc rt kw))
          \<or> failure_shaped (fst (generate d env g nm vars uc rt kw))"
    unfolding generate_def Let_def using ts gu
    by (auto split: sum.splits prod.splits)
qed

lemma templates_register:
  "register_template d t g = Inr (t', g') \<Longrightarrow> cache g' = cache g \<and> history g' = history g"
  by (auto simp: register_template_def engine_register_def split: sum.splits)

lemma reachable_cache_sound: "reachable d g \<Longrightarrow> cache_sound g"
proof (induction rule: reachable.induct)
  case (fresh tpls api sid start)
  show ?case by (simp add: cache_sound_def new_generator_def)
next
  case (after_generate g env template_name vars use_cache retry kwargs)
  then show ?case by (simp add: generate_sound(1))
next
  case (after_clear_cache g)
  show ?case by (simp add: cache_sound_def clear_cache_def)
next
  case (after_clear_history g)
  then show ?case by (simp add: cache_sound_def clear_history_def)
next
  case (after_register g t t' g')
  then show ?case using templates_register[of d t g t' g'] by (simp add: cache_sound_def)
qed

lemma all_drop: "list_all P xs \<Longrightarrow> list_all P (drop n xs)"
  by (simp add: list_all_iff) (meson in_set_dropD)

lemma reachable_history_sound: "reachable d g \<Longrightarrow> history_sound g"
proof (induction rule: reachable.induct)
  case (fresh tpls api sid start)
  show ?case by (simp add: history_sound_def new_generator_def)
next
  case (after_generate g env template_name vars use_cache retry kwargs)
  have "success (fst (generate d env g template_name vars use_cache retry kwargs))
        \<or> cost (fst (generate d env g template_name vars use_cache retry kwargs)) = 0"
    using generate_sound(2)[OF reachable_cache_sound[OF after_generate.hyps], of d env template_name vars use_cache retry kwargs]
    by (auto simp: failure_shaped_def)
  with after_generate.IH show ?case
    by (simp add: history_sound_def history_generate trim_history_drop all_drop)
next
  case (after_clear_cache g)
  then show ?case by (simp add: history_sound_def clear_cache_def)
next
  case (after_clear_history g)
  show ?case by (simp add: history_sound_def clear_history_def)
next
  case (after_register g t t' g')
  then show ?case using templates_register[of d t g t' g'] by (simp add: history_sound_def)
qed

lemma sum_cost_successful:
  "list_all (\<lambda>r. success r \<or> cost r = 0) h \<Longrightarrow>
   sum_list (map cost h) = sum_list (map cost (filter success h))"
  by (induction h) auto

text \<open>
  Claim C8. In every state a generator can reach, \<^verbatim>\<open>get_statistics\<close> gives as
  \<^verbatim>\<open>total_cost\<close> the sum of the costs of the successful entries of the history, rounded
  to six decimals; the failed entries, which the code also adds up, all have cost zero.
\<close>

theorem total_cost_is_successful_cost:
  "reachable d g \<Longrightarrow>
     total_cost (get_statistics g) = py_round (sum_list (map cost (filter success (history g)))) 6
     \<and> list_all (\<lambda>r. success r \<or> cost r = 0) (history g)"
proof -
  assume r: "reachable d g"
  have hs: "list_all (\<lambda>r. success r \<or> cost r = 0) (history g)"
    using reachable_history_sound[OF r] by (simp add: history_sound_def)
  have z: "py_round 0 6 = 0" by (simp add: py_round_def)
  show ?thesis
    using hs sum_cost_successful[OF hs] z
    by (cases "history g = []") (simp_all add: get_statistics_def Let_def)
qed

text \<open>
  For an argument \<^verbatim>\<open>variables\<close> that is \<^verbatim>\<open>None\<close> or a dictionary, \<^verbatim>\<open>generate\<close>
  returns a record: an exception raised inside its \<^verbatim>\<open>try\<close> block becomes a failed record
  whose error text begins with \<^verbatim>\<open>Unexpected error: \<close>. In every state a generator can reach,
  a returned record with \<^verbatim>\<open>success\<close> false has a non-empty error text and empty content.
\<close>

lemma generate_failure_record:
  "reachable d g \<Longrightarrow>
     (\<not> success (fst (generate d env g nm vars uc rt kw)) \<longrightarrow>
        (\<exists>e. error (fst (generate d env g nm vars uc rt kw)) = Some e \<and> e \<noteq> [])
        \<and> content (fst (generate d env g nm vars uc rt kw)) = [])
   \<and> (\<forall>e g'. generate_try d env g nm
                (dict_update (case vars of None \<Rightarrow> [] | Some vs \<Rightarrow> vs)
                   (filter (\<lambda>kv. \<not> is_api_override (fst kv)) kw))
                (filter (\<lambda>kv. is_api_override (fst kv)) kw) uc rt
                (base_result env nm (dict_update (case vars of None \<Rightarrow> [] | Some vs \<Rightarrow> vs)
                   (filter (\<lambda>kv. \<not> is_api_override (fst kv)) kw))) = Inl (e, g') \<longrightarrow>
          \<not> success (fst (generate d env g nm vars uc rt kw))
          \<and> error (fst (generate d env g nm vars uc rt kw)) = Some (''Unexpected error: '' @ exc_str e))"
proof -
  assume r: "reachable d g"
  have "success (fst (generate d env g nm vars uc rt kw))
          \<or> failure_shaped (fst (generate d env g nm vars uc rt kw))"
    by (rule generate_sound(2)[OF reachable_cache_sound[OF r]])
  then have a: "\<not> success (fst (generate d env g nm vars uc rt kw)) \<longrightarrow>
        (\<exists>e. error (fst (generate d env g nm vars uc rt kw)) = Some e \<and> e \<noteq> [])
        \<and> content (fst (generate d env g nm vars uc rt kw)) = []"
    by (auto simp: failure_shaped_def split: option.splits)
  have b: "\<And>e g'. generate_try d env g nm
                (dict_update (case vars of None \<Rightarrow> [] | Some vs \<Rightarrow> vs)
                   (filter (\<lambda>kv. \<not> is_api_override (fst kv)) kw))
                (filter (\<lambda>kv. is_api_override (fst kv)) kw) uc rt
                (base_result env nm (dict_update (case vars of None \<Rightarrow> [] | Some vs \<Rightarrow> vs)
                   (filter (\<lambda>kv. \<not> is_api_override (fst kv)) kw))) = Inl (e, g') \<Longrightarrow>
          \<not> success (fst (generate d env g nm vars uc rt kw))
          \<and> error (fst (generate d env g nm vars uc rt kw)) = Some (''Unexpected error: '' @ exc_str e)"
    by (simp add: generate_def Let_def give_up_def base_result_def)
  from a b show ?thesis by blast
qed

section \<open>Properties of the validation of a call\<close>

named_theorems ev \<open>definitions unfolded to evaluate a concrete call\<close>

lemmas [ev] = py_format_def cons_out_def append_out_def lookup_field_def is_digit_def
  unescape_braces_def escape_braces_def validate_input_def re_match_def re_search_def
  TEMPLATE_NAME_PATTERN_def plus_def name_code_def py_lower_def py_lower_char_def lower_code_def
  SQL_INJECTION_PATTERNS_def DANGEROUS_PATTERNS_def seqs_def lit_def one_of_def opt_def
  rx_s_def rx_w_def rx_d_def rx_dot_def rx_quote_def rx_any_def boundaries_def
  is_word_def word_code_def py_isspace_def isspace_code_def py_strip_def MAX_STRING_LENGTH_def
  char_of_eq_iff

lemma validate_input_product_X:
  "validate_input ''product_description'' [(''product_name'', PStr ''X'')] = None"
  by (simp add: ev)

lemma product_description_valid: "PromptTemplate d product_description = Inr product_description"
  by (simp add: PromptTemplate_def validate_template_def product_description_def
      MAX_NAME_LENGTH_def MAX_TEMPLATE_LENGTH_def)

lemma product_description_missing:
  "validate_variables product_description [(''product_name'', PStr ''X'')]
     = (False, [''features'', ''audience''])"
  by (simp add: validate_variables_def product_description_def is_missing_def Let_def
      py_strip_def py_isspace_def isspace_code_def)

lemma repr_missing: "repr_str_list [''features'', ''audience''] = ''['features', 'audience']''"
  by (simp add: repr_str_list_def repr_str_def repr_char_def py_isprintable_def isprintable_code_def Let_def)

lemma product_description_render_X:
  "template_generate d product_description [(''product_name'', PStr ''X'')] True True
     = Inl (VariableValidationError
         ''Missing required variables for template 'product_description': ['features', 'audience']'')"
  by (simp add: template_generate_def product_description_missing repr_missing quoted_def)
     (simp add: product_description_def)

lemma generate_missing_result:
  "map_of (templates g) ''product_description'' = Some product_description \<Longrightarrow>
   fst (generate d env g ''product_description'' (Some [(''product_name'', PStr ''X'')]) uc rt []) =
     (base_result env ''product_description'' [(''product_name'', PStr ''X'')])
       \<lparr>error := Some (''Variable validation failed: Missing required variables for template ''
               @ [CHR 0x27] @ ''product_description': ['features', 'audience']'')\<rparr>"
  by (simp add: generate_def generate_try_def dict_update_def validate_input_product_X
      get_template_def product_description_valid product_description_render_X
      give_up_def Let_def)

text \<open>
  Claim C3. With the built-in template \<^verbatim>\<open>product_description\<close> in the store,
  \<^verbatim>\<open>generate("product_description", {"product_name": "X"})\<close> returns a failed record whose
  error text names the missing variables as \<^verbatim>\<open>['features', 'audience']\<close>: exactly these
  two, in this order.
\<close>

theorem generate_lists_missing_variables:
  "map_of (templates g) ''product_description'' = Some product_description \<Longrightarrow>
     success (fst (generate d env g ''product_description'' (Some [(''product_name'', PStr ''X'')]) uc rt []))
       = False
   \<and> error (fst (generate d env g ''product_description'' (Some [(''product_name'', PStr ''X'')]) uc rt []))
       = Some (''Variable validation failed: Missing required variables for template ''
               @ [CHR 0x27] @ ''product_description': ['features', 'audience']'')
   \<and> snd (validate_variables product_description [(''product_name'', PStr ''X'')])
       = [''features'', ''audience'']"
  by (simp add: generate_missing_result base_result_def product_description_missing)

lemma sample_has_template:
  "map_of (templates sample_generator) ''product_description'' = Some product_description"
  by (simp add: sample_generator_def new_generator_def)

theorem generate_lists_missing_variables_witness:
  "map_of (templates sample_generator) ''product_description'' = Some product_description
   \<and> error (fst (generate sample_deps sample_env sample_generator ''product_description''
                 (Some [(''product_name'', PStr ''X'')]) True True []))
       = Some (''Variable validation failed: Missing required variables for template ''
               @ [CHR 0x27] @ ''product_description': ['features', 'audience']'')"
  using generate_lists_missing_variables [of sample_generator sample_deps sample_env True True]
  by (simp add: sample_has_template)

subsection \<open>Two concrete calls\<close>

lemma validate_input_full:
  "validate_input ''product_description''
     [(''product_name'', PStr ''X''), (''features'', PStr ''GPS''), (''audience'', PStr ''Athletes'')] = None"
  by (simp add: ev)

lemma sanitize_X: "sanitize_value (PStr ''X'') = Inr ''X''"
  by (simp add: sanitize_value_def str_or_empty_def py_str_def MAX_VARIABLE_LENGTH_def Let_def ev)

lemma sanitize_GPS: "sanitize_value (PStr ''GPS'') = Inr ''GPS''"
  by (simp add: sanitize_value_def str_or_empty_def py_str_def MAX_VARIABLE_LENGTH_def Let_def ev)

lemma sanitize_Athletes: "sanitize_value (PStr ''Athletes'') = Inr ''Athletes''"
  by (simp add: sanitize_value_def str_or_empty_def py_str_def MAX_VARIABLE_LENGTH_def Let_def ev)

lemma merged_full:
  "merged_vars product_description
     [(''product_name'', PStr ''X''), (''features'', PStr ''GPS''), (''audience'', PStr ''Athletes'')] True
   = Inr [(''tone'', ''persuasive''), (''length'', ''100''), (''product_name'', ''X''),
          (''features'', ''GPS''), (''audience'', ''Athletes'')]"
  by (simp add: merged_vars_def product_description_def sanitize_X sanitize_GPS sanitize_Athletes)

lemma full_missing:
  "validate_variables product_description
     [(''product_name'', PStr ''X''), (''features'', PStr ''GPS''), (''audience'', PStr ''Athletes'')]
     = (True, [])"
  by (simp add: validate_variables_def product_description_def is_missing_def Let_def
      py_strip_def py_isspace_def isspace_code_def)

lemma format_full:
  "py_format d (template product_description)
     (final_vars [(''tone'', ''persuasive''), (''length'', ''100''), (''product_name'', ''X''),
          (''features'', ''GPS''), (''audience'', ''Athletes'')])
   = Inr (''Write a persuasive product description for X. Key features: GPS. ''
          @ ''Target audience: Athletes. Length: 100 words. Include a compelling call-to-action.'')"
  by (simp add: product_description_def final_vars_def ev)

lemma render_full:
  "template_generate d product_description
     [(''product_name'', PStr ''X''), (''features'', PStr ''GPS''), (''audience'', PStr ''Athletes'')]
     True True
   = Inr (''[System: You are an expert e-commerce copywriter]'' @ [CHR 0x0A, CHR 0x0A]
          @ ''Write a persuasive product description for X. Key features: GPS. ''
          @ ''Target audience: Athletes. Length: 100 words. Include a compelling call-to-action.'')"
  by (simp add: template_generate_def full_missing merged_full format_full)
     (simp add: product_description_def)

lemma full_call_result:
  "fst (generate_call sample_deps sample_generator full_call) =
     \<lparr>success = True, content = ''ok'', template_used = ''product_description'',
      variables = [(''product_name'', PStr ''X''), (''features'', PStr ''GPS''),
                   (''audience'', PStr ''Athletes'')],
      timestamp = ''2024-01-01T12:00:00'', request_id = ''req_1'', model = ''gpt-3.5-turbo'',
      tokens_used = \<lparr>prompt_tokens = 3, completion_tokens = 1, total_tokens = 4\<rparr>,
      cost = 1 / 1000, cached = False, generation_time = 1 / 10, error = None\<rparr>"
  by (simp add: generate_call_def full_call_def generate_def generate_try_def dict_update_def
      validate_input_full get_template_def sample_generator_def new_generator_def
      product_description_valid render_full generate_rendered_def lru_get_def
      call_api_with_retry_def call_loop.simps sample_env_def sample_response_def
      finish_success_def base_result_def sample_deps_def Let_def)

lemma validate_input_js:
  "validate_input ''product_description''
     [(''product_name'', PStr ''javascript:''), (''features'', PStr ''GPS''),
      (''audience'', PStr ''Athletes'')] = None"
  by (simp add: ev)

lemma sanitize_js:
  "sanitize_value (PStr ''javascript:'') = Inl (SanitizationError ''Input contains potentially malicious content'')"
  by (simp add: sanitize_value_def str_or_empty_def py_str_def MAX_VARIABLE_LENGTH_def Let_def ev)

lemma render_js:
  "template_generate d product_description
     [(''product_name'', PStr ''javascript:''), (''features'', PStr ''GPS''),
      (''audience'', PStr ''Athletes'')] True True
   = Inl (SanitizationError ''Input contains potentially malicious content'')"
  by (simp add: template_generate_def validate_variables_def is_missing_def Let_def
      py_strip_def py_isspace_def isspace_code_def merged_vars_def product_description_def sanitize_js)

lemma try_js:
  "generate_try sample_deps sample_env sample_generator ''product_description''
     [(''product_name'', PStr ''javascript:''), (''features'', PStr ''GPS''),
      (''audience'', PStr ''Athletes'')] [] True True r0
   = Inl (SanitizationError ''Input contains potentially malicious content'',
          snd (get_template sample_deps ''product_description'' sample_generator))"
  by (simp add: generate_try_def validate_input_js get_template_def sample_has_template
      product_description_valid render_js)

lemma reachable_sample: "reachable d sample_generator"
  unfolding sample_generator_def by (rule reachable.fresh)

lemma generate_failure_record_instance:
  "\<not> success (fst (generate sample_deps sample_env sample_generator ''product_description''
                   (Some [(''product_name'', PStr ''X'')]) True True []))
   \<and> content (fst (generate sample_deps sample_env sample_generator ''product_description''
                   (Some [(''product_name'', PStr ''X'')]) True True [])) = []
   \<and> error (fst (generate sample_deps sample_env sample_generator ''product_description''
                   (Some [(''product_name'', PStr ''X'')]) True True [])) \<noteq> Some []
   \<and> error (fst (generate sample_deps sample_env sample_generator ''product_description''
                   (Some [(''product_name'', PStr ''javascript:''), (''features'', PStr ''GPS''),
                          (''audience'', PStr ''Athletes'')]) True True []))
       = Some ''Unexpected error: Input contains potentially malicious content''"
proof -
  have f: "\<not> success (fst (generate sample_deps sample_env sample_generator ''product_description''
                   (Some [(''product_name'', PStr ''X'')]) True True []))"
    by (simp add: generate_missing_result [OF sample_has_template] base_result_def)
  from generate_failure_record [OF reachable_sample, of sample_deps sample_env "''product_description''"
      "Some [(''product_name'', PStr ''X'')]" True True "[]"]
    generate_failure_record [OF reachable_sample, of sample_deps sample_env "''product_description''"
      "Some [(''product_name'', PStr ''javascript:''), (''features'', PStr ''GPS''),
             (''audience'', PStr ''Athletes'')]" True True "[]"] f
  show ?thesis by (auto simp: dict_update_def try_js exc_str_def)
qed

text \<open>
  Claim C2 does not hold of the code for every input. \<^verbatim>\<open>generate\<close> raises to its caller
  exactly when \<^verbatim>\<open>variables\<close> is a true value that is not a dictionary: a non-empty string
  gives a \<^verbatim>\<open>ValueError\<close>, a non-zero number or \<^verbatim>\<open>True\<close> a \<^verbatim>\<open>TypeError\<close>, because
  \<^verbatim>\<open>dict(variables or {})\<close> stands before the \<^verbatim>\<open>try\<close> block. For every other argument a
  record is returned.
\<close>

theorem generate_raises_before_try:
  "(arg_truthy a \<and> \<not> is_dict a \<longrightarrow>
      (\<exists>m. generate_any d env g nm a uc rt kw = Inl (ValueError m)
           \<or> generate_any d env g nm a uc rt kw = Inl (TypeError m)))
   \<and> (\<not> arg_truthy a \<or> is_dict a \<longrightarrow> (\<exists>r g'. generate_any d env g nm a uc rt kw = Inr (r, g')))
   \<and> generate_any d env g nm (AStr (c # s)) uc rt kw
       = Inl (ValueError ''dictionary update sequence element #0 has length 1; 2 is required'')"
  by (cases a) (auto simp: generate_any_def dict_of_arg_def arg_truthy_def is_dict_def prod_eq_iff)

theorem generate_raises_before_try_witness:
  "arg_truthy (AStr ''abc'') \<and> \<not> is_dict (AStr ''abc'')
   \<and> (\<exists>m. generate_any sample_deps sample_env sample_generator ''product_description''
              (AStr ''abc'') True True [] = Inl (ValueError m)
          \<or> generate_any sample_deps sample_env sample_generator ''product_description''
              (AStr ''abc'') True True [] = Inl (TypeError m))
   \<and> is_dict (ADict [(''product_name'', PStr ''X'')])
   \<and> (\<exists>r g'. generate_any sample_deps sample_env sample_generator ''product_description''
              (ADict [(''product_name'', PStr ''X'')]) True True [] = Inr (r, g'))"
  using generate_raises_before_try [of "AStr ''abc''" sample_deps sample_env sample_generator
      "''product_description''" True True "[]"]
    generate_raises_before_try [of "ADict [(''product_name'', PStr ''X'')]" sample_deps sample_env
      sample_generator "''product_description''" True True "[]"]
  by (simp add: arg_truthy_def is_dict_def)

lemma sample_history: "history sample_generator = []"
  by (simp add: sample_generator_def new_generator_def)

lemma history_after_full_call:
  "history (snd (generate_call sample_deps sample_generator full_call))
     = [fst (generate_call sample_deps sample_generator full_call)]"
  by (simp add: generate_call_def history_generate trim_history_drop sample_history
      MAX_HISTORY_SIZE_def)

theorem total_cost_is_successful_cost_witness:
  "reachable sample_deps (snd (generate_call sample_deps sample_generator full_call))
   \<and> total_cost (get_statistics (snd (generate_call sample_deps sample_generator full_call))) = 1 / 1000"
proof -
  have r: "reachable sample_deps (snd (generate_call sample_deps sample_generator full_call))"
    unfolding generate_call_def by (rule reachable.after_generate [OF reachable_sample])
  from total_cost_is_successful_cost [OF r] r
  show ?thesis by (simp add: history_after_full_call full_call_result py_round_def Let_def)
qed

section \<open>Properties of registration\<close>

lemma validate_template_iff: "validate_template d t = None \<longleftrightarrow> structurally_valid t"
  by (auto simp: validate_template_def structurally_valid_def MAX_NAME_LENGTH_def
      MAX_TEMPLATE_LENGTH_def)

lemma validate_template_error:
  "validate_template d t = Some e \<Longrightarrow> \<exists>m. e = TemplateValidationError m"
  by (auto simp: validate_template_def split: if_splits)

lemma engine_register_stores: "map_of (templates (engine_register t g)) (name t) = Some t"
  by (simp add: engine_register_def update_Some_unfold)

text \<open>
  Claim C4, amended. Registration accepts a template exactly when its name has 1 to 100
  characters, its body 1 to 10000 characters, its temperature lies in [0, 2] and its
  \<^verbatim>\<open>max_tokens\<close> is at least 1; then the template is stored under its name, whatever
  characters the name has. Otherwise a \<^verbatim>\<open>TemplateValidationError\<close> is raised and the store is
  not touched.
\<close>

theorem register_template_checks:
  "(structurally_valid t \<longrightarrow>
      register_template d t g = Inr (t, engine_register t g)
      \<and> map_of (templates (engine_register t g)) (name t) = Some t)
   \<and> (\<not> structurally_valid t \<longrightarrow>
      (\<exists>m. register_template d t g = Inl (TemplateValidationError m)))"
proof (cases "validate_template d t")
  case None
  then show ?thesis
    using validate_template_iff[of d t]
    by (simp add: register_template_def PromptTemplate_def engine_register_stores)
next
  case (Some e)
  then show ?thesis
    using validate_template_iff[of d t] validate_template_error[OF Some]
    by (auto simp: register_template_def PromptTemplate_def)
qed

lemma product_description_structure: "structurally_valid product_description"
  by (simp add: structurally_valid_def product_description_def)

lemma bad_name_structure: "structurally_valid bad_name_template"
  by (simp add: structurally_valid_def bad_name_template_def product_description_def)

theorem register_template_checks_witness:
  "structurally_valid product_description
   \<and> register_template sample_deps product_description sample_generator
       = Inr (product_description, engine_register product_description sample_generator)
   \<and> \<not> structurally_valid (product_description\<lparr>template := []\<rparr>)
   \<and> register_template sample_deps (product_description\<lparr>template := []\<rparr>) sample_generator
       = Inl (TemplateValidationError ''Template must be a non-empty string'')"
  using register_template_checks [of product_description sample_deps sample_generator]
    register_template_checks [of "product_description\<lparr>template := []\<rparr>" sample_deps sample_generator]
  by (auto simp: product_description_structure)
     (simp_all add: structurally_valid_def register_template_def PromptTemplate_def
        validate_template_def product_description_def MAX_NAME_LENGTH_def)

text \<open>
  The claim as stated fails: the name \<^verbatim>\<open>bad-name!\<close> does not match
  \<^verbatim>\<open>[A-Za-z0-9_]+\<close>, yet registration succeeds and the template is in the store.
\<close>

theorem register_accepts_bad_name:
  "\<not> re_match TEMPLATE_NAME_PATTERN (name bad_name_template)
   \<and> register_template sample_deps bad_name_template sample_generator
       = Inr (bad_name_template, engine_register bad_name_template sample_generator)
   \<and> map_of (templates (engine_register bad_name_template sample_generator)) ''bad-name!''
       = Some bad_name_template"
proof -
  have n: "name bad_name_template = ''bad-name!''" by (simp add: bad_name_template_def)
  have "\<not> re_match TEMPLATE_NAME_PATTERN ''bad-name!''" by (simp add: ev)
  moreover have "register_template sample_deps bad_name_template sample_generator
       = Inr (bad_name_template, engine_register bad_name_template sample_generator)"
    using validate_template_iff[of sample_deps bad_name_template] bad_name_structure
    by (simp add: register_template_def PromptTemplate_def)
  moreover have "map_of (templates (engine_register bad_name_template sample_generator)) ''bad-name!''
       = Some bad_name_template"
    using engine_register_stores[of bad_name_template sample_generator] n by simp
  ultimately show ?thesis using n by simp
qed

section \<open>Properties of rendering\<close>

lemma undouble_other: "x \<noteq> c \<Longrightarrow> undouble c (x # r) = x # undouble c r"
  by (cases r) auto

lemma undouble_open_escape:
  "undouble (CHR ''{'') (escape_braces s)
     = concat (map (\<lambda>c. if c = CHR ''}'' then [c, c] else [c]) s)"
  by (induction s) (auto simp: escape_braces_def undouble_other)

lemma undouble_close_escape:
  "undouble (CHR ''}'') (concat (map (\<lambda>c. if c = CHR ''}'' then [c, c] else [c]) s)) = s"
  by (induction s) (auto simp: undouble_other)

lemma unescape_escape: "unescape_braces (escape_braces s) = s"
  by (simp add: unescape_braces_def undouble_open_escape undouble_close_escape)

lemma sanitize_value_result:
  "sanitize_value v = Inr s \<Longrightarrow> s = escape_braces (str_or_empty v)"
  by (auto simp: sanitize_value_def Let_def split: if_splits)

lemma override_vars_other:
  "override_vars sanitize kvs m0 = Inr m \<Longrightarrow> k \<notin> fst ` set kvs \<Longrightarrow> map_of m k = map_of m0 k"
proof (induction kvs arbitrary: m0)
  case Nil
  then show ?case by simp
next
  case (Cons kv kvs)
  obtain k' v' where kv: "kv = (k', v')" by (cases kv)
  from Cons.prems(2) kv have ne: "k \<noteq> k'" and ni: "k \<notin> fst ` set kvs" by auto
  show ?case
  proof (cases sanitize)
    case True
    with Cons.prems(1) kv obtain s where s: "sanitize_value v' = Inr s"
      and r: "override_vars sanitize kvs (AList.update k' s m0) = Inr m"
      by (auto split: sum.splits)
    from Cons.IH[OF r ni] ne show ?thesis by (simp add: update_conv')
  next
    case False
    with Cons.prems(1) kv
    have r: "override_vars sanitize kvs (AList.update k' (str_or_empty v') m0) = Inr m" by simp
    from Cons.IH[OF r ni] ne show ?thesis by (simp add: update_conv')
  qed
qed

lemma override_vars_sanitized:
  "override_vars True kvs m0 = Inr m \<Longrightarrow> distinct (map fst kvs) \<Longrightarrow> map_of kvs k = Some v \<Longrightarrow>
   sanitize_value v = Inr (escape_braces (str_or_empty v))
   \<and> map_of m k = Some (escape_braces (str_or_empty v))"
proof (induction kvs arbitrary: m0)
  case Nil
  then show ?case by simp
next
  case (Cons kv kvs)
  obtain k' v' where kv: "kv = (k', v')" by (cases kv)
  from Cons.prems(1) kv obtain s where s: "sanitize_value v' = Inr s"
    and r: "override_vars True kvs (AList.update k' s m0) = Inr m"
    by (auto split: sum.splits)
  from Cons.prems(2) kv have d: "distinct (map fst kvs)" and ni: "k' \<notin> fst ` set kvs" by auto
  show ?case
  proof (cases "k = k'")
    case True
    with Cons.prems(3) kv have v: "v = v'" by simp
    have "map_of m k' = Some s"
      using override_vars_other[OF r ni] by (simp add: update_conv')
    with True v s sanitize_value_result[OF s] show ?thesis by simp
  next
    case False
    with Cons.prems(3) kv have "map_of kvs k = Some v" by simp
    from Cons.IH[OF r d this] show ?thesis .
  qed
qed

lemma map_of_final_vars: "map_of (final_vars m) k = map_option unescape_braces (map_of m k)"
  by (induction m) (auto simp: final_vars_def)

lemma format_plain_field:
  "list_all (\<lambda>c. c \<notin> set ''{}[:!.'') k \<Longrightarrow> CHR ''.'' \<notin> set acc \<Longrightarrow>
   format_from d m (Some acc) (k @ CHR ''}'' # rest) =
     (case lookup_field m (acc @ k) of
        Inl e \<Rightarrow> Inl e
      | Inr v \<Rightarrow> append_out v (format_from d m None rest))"
  by (induction k arbitrary: acc) auto

lemma format_single_field:
  "plain_name k \<Longrightarrow> map_of m k = Some v \<Longrightarrow> py_format d (CHR ''{'' # k @ ''}'') m = Inr v"
proof -
  assume p: "plain_name k" and v: "map_of m k = Some v"
  from p obtain c cs where k: "k = c # cs" by (cases k) (auto simp: plain_name_def)
  from p k have c: "c \<noteq> CHR ''{''" by (auto simp: plain_name_def)
  have l: "lookup_field m k = Inr v"
    using p v by (simp add: lookup_field_def plain_name_def)
  have "format_from d m (Some []) (k @ CHR ''}'' # []) = Inr v"
    using p l by (subst format_plain_field) (simp_all add: plain_name_def append_out_def)
  then show ?thesis using c k by (simp add: py_format_def)
qed

text \<open>
  Claim C5, amended. With sanitizing on, \<^verbatim>\<open>_sanitize_value\<close> doubles the braces of each
  value the caller supplies, and the merged dictionary holds the doubled text; but
  \<^verbatim>\<open>generate\<close> undoes the doubling before it calls \<^verbatim>\<open>str.format\<close>, so the value
  substituted for the key is the caller's text with its braces as given, and a placeholder for
  that key renders as exactly that text.
\<close>

theorem sanitized_value_is_unescaped:
  "distinct (map fst vars) \<Longrightarrow> map_of vars k = Some v \<Longrightarrow> merged_vars t vars True = Inr m \<Longrightarrow>
     sanitize_value v = Inr (escape_braces (str_or_empty v))
     \<and> map_of m k = Some (escape_braces (str_or_empty v))
     \<and> map_of (final_vars m) k = Some (str_or_empty v)
     \<and> (plain_name k \<longrightarrow> py_format d (CHR ''{'' # k @ ''}'') (final_vars m) = Inr (str_or_empty v))"
proof -
  assume d: "distinct (map fst vars)" and v: "map_of vars k = Some v"
    and m: "merged_vars t vars True = Inr m"
  from m obtain m1 where o: "override_vars True vars m1 = Inr m"
    by (auto simp: merged_vars_def Let_def)
  note s = override_vars_sanitized[OF o d v]
  have f: "map_of (final_vars m) k = Some (str_or_empty v)"
    using s by (simp add: map_of_final_vars unescape_escape)
  from s f format_single_field[OF _ f] show ?thesis by simp
qed

lemma sanitize_brace: "sanitize_value (PStr ''a{b}'') = Inr ''a{{b}}''"
  by (simp add: sanitize_value_def str_or_empty_def py_str_def MAX_VARIABLE_LENGTH_def Let_def ev)

lemma merged_brace:
  "merged_vars product_description
     [(''product_name'', PStr ''a{b}''), (''features'', PStr ''GPS''), (''audience'', PStr ''Athletes'')] True
   = Inr [(''tone'', ''persuasive''), (''length'', ''100''), (''product_name'', ''a{{b}}''),
          (''features'', ''GPS''), (''audience'', ''Athletes'')]"
  by (simp add: merged_vars_def product_description_def sanitize_brace sanitize_GPS sanitize_Athletes)

theorem sanitized_value_is_unescaped_witness:
  "distinct (map fst [(''product_name'', PStr ''a{b}''), (''features'', PStr ''GPS''),
                      (''audience'', PStr ''Athletes'')])
   \<and> map_of [(''product_name'', PStr ''a{b}''), (''features'', PStr ''GPS''),
              (''audience'', PStr ''Athletes'')] ''product_name'' = Some (PStr ''a{b}'')
   \<and> merged_vars product_description
        [(''product_name'', PStr ''a{b}''), (''features'', PStr ''GPS''), (''audience'', PStr ''Athletes'')] True
      = Inr [(''tone'', ''persuasive''), (''length'', ''100''), (''product_name'', ''a{{b}}''),
             (''features'', ''GPS''), (''audience'', ''Athletes'')]
   \<and> plain_name ''product_name''
   \<and> py_format sample_deps ''{product_name}''
        (final_vars [(''tone'', ''persuasive''), (''length'', ''100''), (''product_name'', ''a{{b}}''),
             (''features'', ''GPS''), (''audience'', ''Athletes'')]) = Inr ''a{b}''"
proof -
  have p: "plain_name ''product_name''" by (simp add: plain_name_def is_digit_def)
  from sanitized_value_is_unescaped [of
      "[(''product_name'', PStr ''a{b}''), (''features'', PStr ''GPS''), (''audience'', PStr ''Athletes'')]"
      "''product_name''" "PStr ''a{b}''" product_description
      "[(''tone'', ''persuasive''), (''length'', ''100''), (''product_name'', ''a{{b}}''),
        (''features'', ''GPS''), (''audience'', ''Athletes'')]" sample_deps] p
  show ?thesis by (simp add: merged_brace str_or_empty_def py_str_def escape_braces_def)
qed

lemma brace_missing:
  "validate_variables product_description
     [(''product_name'', PStr ''a{b}''), (''features'', PStr ''GPS''), (''audience'', PStr ''Athletes'')]
     = (True, [])"
  by (simp add: validate_variables_def product_description_def is_missing_def Let_def
      py_strip_def py_isspace_def isspace_code_def)

lemma format_brace:
  "py_format d (template product_description)
     (final_vars [(''tone'', ''persuasive''), (''length'', ''100''), (''product_name'', ''a{{b}}''),
          (''features'', ''GPS''), (''audience'', ''Athletes'')])
   = Inr (''Write a persuasive product description for a{b}. Key features: GPS. ''
          @ ''Target audience: Athletes. Length: 100 words. Include a compelling call-to-action.'')"
  by (simp add: product_description_def final_vars_def ev)

text \<open>
  The claim as stated fails: the value \<^verbatim>\<open>a{b}\<close> is sanitized to \<^verbatim>\<open>a{{b}}\<close>, but the
  rendered prompt holds \<^verbatim>\<open>a{b}\<close> and no doubled brace at all.
\<close>

theorem rendered_braces_not_doubled:
  "sanitize_value (PStr ''a{b}'') = Inr ''a{{b}}''
   \<and> template_generate sample_deps product_description
        [(''product_name'', PStr ''a{b}''), (''features'', PStr ''GPS''), (''audience'', PStr ''Athletes'')]
        True False
      = Inr (''Write a persuasive product description for a{b}. Key features: GPS. ''
             @ ''Target audience: Athletes. Length: 100 words. Include a compelling call-to-action.'')
   \<and> \<not> py_contains ''{{''
         (''Write a persuasive product description for a{b}. Key features: GPS. ''
          @ ''Target audience: Athletes. Length: 100 words. Include a compelling call-to-action.'')"
  by (simp add: sanitize_brace template_generate_def brace_missing merged_brace format_brace)

section \<open>Properties of the default tone\<close>

lemma override_vars_keeps:
  "override_vars sanitize kvs m0 = Inr m \<Longrightarrow> map_of m0 k \<noteq> None \<Longrightarrow> map_of m k \<noteq> None"
proof (induction kvs arbitrary: m0)
  case Nil
  then show ?case by simp
next
  case (Cons kv kvs)
  obtain k' v' where kv: "kv = (k', v')" by (cases kv)
  from Cons.prems(1) kv obtain s where r: "override_vars sanitize kvs (AList.update k' s m0) = Inr m"
    by (cases sanitize) (auto split: sum.splits)
  have "map_of (AList.update k' s m0) k \<noteq> None"
    using Cons.prems(2) by (simp add: update_conv')
  from Cons.IH[OF r this] show ?case .
qed

lemma override_vars_adds:
  "override_vars sanitize kvs m0 = Inr m \<Longrightarrow> map_of kvs k \<noteq> None \<Longrightarrow> map_of m k \<noteq> None"
proof (induction kvs arbitrary: m0)
  case Nil
  then show ?case by simp
next
  case (Cons kv kvs)
  obtain k' v' where kv: "kv = (k', v')" by (cases kv)
  from Cons.prems(1) kv obtain s where r: "override_vars sanitize kvs (AList.update k' s m0) = Inr m"
    by (cases sanitize) (auto split: sum.splits)
  show ?case
  proof (cases "k = k'")
    case True
    have "map_of (AList.update k' s m0) k \<noteq> None" using True by (simp add: update_conv')
    from override_vars_keeps[OF r this] show ?thesis .
  next
    case False
    with Cons.prems(2) kv have "map_of kvs k \<noteq> None" by simp
    from Cons.IH[OF r this] show ?thesis .
  qed
qed

lemma merged_vars_tone:
  assumes "merged_vars t vars sanitize = Inr m"
  shows "map_of m ''tone'' \<noteq> None"
    and "map_of vars ''tone'' = None \<Longrightarrow> map_of (optional_variables t) ''tone'' = None \<Longrightarrow>
         map_of m ''tone'' = Some (default_tone t)"
proof -
  let ?m1 = "if map_of (optional_variables t) ''tone'' = None \<and> map_of vars ''tone'' = None
             then AList.update ''tone'' (default_tone t) (optional_variables t)
             else optional_variables t"
  from assms have o: "override_vars sanitize vars ?m1 = Inr m"
    by (simp add: merged_vars_def Let_def)
  show "map_of m ''tone'' \<noteq> None"
  proof (cases "map_of vars ''tone'' = None")
    case False
    from override_vars_adds[OF o False] show ?thesis .
  next
    case True
    then have "map_of ?m1 ''tone'' \<noteq> None" by (auto simp: update_conv')
    from override_vars_keeps[OF o this] show ?thesis .
  qed
  show "map_of m ''tone'' = Some (default_tone t)"
    if a: "map_of vars ''tone'' = None" and b: "map_of (optional_variables t) ''tone'' = None"
  proof -
    from a have "''tone'' \<notin> fst ` set vars" by (simp add: map_of_eq_None_iff)
    from override_vars_other[OF o this] a b show ?thesis by (simp add: update_conv')
  qed
qed

lemma cons_out_error: "cons_out c r = Inl e \<longleftrightarrow> r = Inl e"
  by (simp add: cons_out_def split: sum.splits)

lemma append_out_error: "append_out v r = Inl e \<longleftrightarrow> r = Inl e"
  by (simp add: append_out_def split: sum.splits)

lemma lookup_field_key_error: "lookup_field m nm = Inl (KeyError k) \<Longrightarrow> map_of m k = None"
  by (auto simp: lookup_field_def Let_def split: if_splits option.splits)

lemma format_from_key_error:
  "map_of m k \<noteq> None \<Longrightarrow> (\<And>s. lib_format_field d s m \<noteq> Inl (KeyError k)) \<Longrightarrow>
   format_from d m mode s \<noteq> Inl (KeyError k)"
proof (induction d m mode s rule: format_from.induct)
  case (1 d m)
  show ?case by simp
next
  case (2 d m c cs)
  then show ?case
    by (auto simp: cons_out_error split: list.splits)
next
  case (3 d m acc)
  show ?case by simp
next
  case (4 d m acc c cs)
  then show ?case
    using lookup_field_key_error[of m acc k]
    by (auto simp: append_out_error split: sum.splits)
qed

text \<open>
  Claim C10. When neither the caller's variables nor the template's optional defaults have the
  key \<^verbatim>\<open>tone\<close>, the merged dictionary maps \<^verbatim>\<open>tone\<close> to the template's
  \<^verbatim>\<open>default_tone\<close>; in every case the dictionary handed to \<^verbatim>\<open>str.format\<close> has the key
  \<^verbatim>\<open>tone\<close>, so a placeholder \<^verbatim>\<open>{tone}\<close> is resolved, and \<^verbatim>\<open>str.format\<close> raises no
  \<^verbatim>\<open>KeyError\<close> for \<^verbatim>\<open>tone\<close>, the only source of the unresolved-placeholder failure
  (provided the library's handling of a field with attribute access, indexing, conversion or
  format specification raises none for a key that is present).
\<close>

theorem default_tone_is_injected:
  "merged_vars t vars sanitize = Inr m \<Longrightarrow>
     (map_of vars ''tone'' = None \<and> map_of (optional_variables t) ''tone'' = None \<longrightarrow>
        map_of m ''tone'' = Some (default_tone t))
     \<and> (\<exists>v. lookup_field (final_vars m) ''tone'' = Inr v)
     \<and> ((\<forall>s. lib_format_field d s (final_vars m) \<noteq> Inl (KeyError ''tone'')) \<longrightarrow>
          py_format d (template t) (final_vars m) \<noteq> Inl (KeyError ''tone''))"
proof -
  assume a: "merged_vars t vars sanitize = Inr m"
  have f: "map_of (final_vars m) ''tone'' \<noteq> None"
    using merged_vars_tone(1)[OF a] by (simp add: map_of_final_vars)
  have l: "\<exists>v. lookup_field (final_vars m) ''tone'' = Inr v"
    using f by (auto simp: lookup_field_def is_digit_def)
  from merged_vars_tone(2)[OF a] l format_from_key_error[OF f, of d None "template t"]
  show ?thesis by (auto simp: py_format_def)
qed

lemma merged_no_tone:
  "merged_vars (product_description\<lparr>optional_variables := [(''length'', ''100'')]\<rparr>)
     [(''product_name'', PStr ''X''), (''features'', PStr ''GPS''), (''audience'', PStr ''Athletes'')] True
   = Inr [(''length'', ''100''), (''tone'', ''persuasive''), (''product_name'', ''X''),
          (''features'', ''GPS''), (''audience'', ''Athletes'')]"
  by (simp add: merged_vars_def product_description_def sanitize_X sanitize_GPS sanitize_Athletes)

theorem default_tone_is_injected_witness:
  "merged_vars (product_description\<lparr>optional_variables := [(''length'', ''100'')]\<rparr>)
     [(''product_name'', PStr ''X''), (''features'', PStr ''GPS''), (''audience'', PStr ''Athletes'')] True
   = Inr [(''length'', ''100''), (''tone'', ''persuasive''), (''product_name'', ''X''),
          (''features'', ''GPS''), (''audience'', ''Athletes'')]
   \<and> map_of [(''product_name'', PStr ''X''), (''features'', PStr ''GPS''), (''audience'', PStr ''Athletes'')]
        ''tone'' = None
   \<and> map_of (optional_variables (product_description\<lparr>optional_variables := [(''length'', ''100'')]\<rparr>))
        ''tone'' = None
   \<and> default_tone (product_description\<lparr>optional_variables := [(''length'', ''100'')]\<rparr>) = ''persuasive''
   \<and> py_format sample_deps (template (product_description\<lparr>optional_variables := [(''length'', ''100'')]\<rparr>))
        (final_vars [(''length'', ''100''), (''tone'', ''persuasive''), (''product_name'', ''X''),
          (''features'', ''GPS''), (''audience'', ''Athletes'')]) \<noteq> Inl (KeyError ''tone'')"
  using default_tone_is_injected [of "product_description\<lparr>optional_variables := [(''length'', ''100'')]\<rparr>"
      "[(''product_name'', PStr ''X''), (''features'', PStr ''GPS''), (''audience'', PStr ''Athletes'')]" True
      "[(''length'', ''100''), (''tone'', ''persuasive''), (''product_name'', ''X''),
        (''features'', ''GPS''), (''audience'', ''Athletes'')]" sample_deps]
  by (simp add: merged_no_tone) (simp add: sample_deps_def product_description_def)

section \<open>Properties of the cache\<close>

lemma generate_unfold:
  assumes "validate_input nm (merged_variables vars kw) = None"
    and "map_of (templates g) nm = Some t0"
    and "PromptTemplate d t0 = Inr t"
    and "template_generate d t (merged_variables vars kw) True True = Inr p"
  shows "generate d env g nm vars uc rt kw =
     generate_rendered d env (g\<lparr>usage_stats := bump nm 0 (usage_stats g) (\<lambda>n. n + 1)\<rparr>) nm
       (merged_variables vars kw) (filter (\<lambda>kv. is_api_override (fst kv)) kw) uc rt
       (base_result env nm (merged_variables vars kw)) t p"
  using assms
  by (simp add: generate_def generate_try_def get_template_def merged_variables_def Let_def)

lemma generate_success_path:
  assumes "success (fst (generate d env g nm vars uc rt kw))"
  shows "\<exists>t0 t p. validate_input nm (merged_variables vars kw) = None
           \<and> map_of (templates g) nm = Some t0 \<and> PromptTemplate d t0 = Inr t
           \<and> template_generate d t (merged_variables vars kw) True True = Inr p"
proof -
  let ?M = "merged_variables vars kw"
  let ?r0 = "base_result env nm ?M"
  have nf: "\<And>msg r g0. \<not> success r \<Longrightarrow> \<not> success (fst (give_up msg r g0))"
    by (simp add: give_up_def Let_def)
  have b: "\<not> success ?r0" "\<not> success (?r0\<lparr>generation_time := ge_elapsed env\<rparr>)"
    by (simp_all add: base_result_def)
  show ?thesis
  proof (cases "validate_input nm ?M")
    case (Some msg)
    with assms nf[OF b(1)] show ?thesis
      by (simp add: generate_def generate_try_def merged_variables_def Let_def)
  next
    case vi: None
    show ?thesis
    proof (cases "map_of (templates g) nm")
      case None
      with assms vi nf[OF b(1)] show ?thesis
        by (simp add: generate_def generate_try_def get_template_def merged_variables_def Let_def)
    next
      case (Some t0)
      show ?thesis
      proof (cases "PromptTemplate d t0")
        case (Inl e)
        with assms vi Some nf[OF b(1)] nf[OF b(2)] show ?thesis
          by (cases e)
            (simp_all add: generate_def generate_try_def get_template_def merged_variables_def Let_def)
      next
        case (Inr t)
        show ?thesis
        proof (cases "template_generate d t ?M True True")
          case (Inl e)
          with assms vi Some Inr nf[OF b(1)] nf[OF b(2)] show ?thesis
            by (cases e)
              (simp_all add: generate_def generate_try_def get_template_def merged_variables_def Let_def)
        next
          case p: (Inr p)
          with vi Some Inr show ?thesis by simp
        qed
      qed
    qed
  qed
qed

lemma frame_give_up:
  "templates (snd (give_up msg r g)) = templates g"
  "has_api_manager (snd (give_up msg r g)) = has_api_manager g"
  "remote_calls (snd (give_up msg r g)) = remote_calls g"
  by (simp_all add: give_up_def add_to_history_def Let_def)

lemma frame_finish_hit:
  "templates (snd (finish_hit env key c g)) = templates g"
  "has_api_manager (snd (finish_hit env key c g)) = has_api_manager g"
  "remote_calls (snd (finish_hit env key c g)) = remote_calls g"
  "cached (fst (finish_hit env key c g))"
  by (simp_all add: finish_hit_def add_to_history_def invoke_callbacks_def Let_def)

lemma frame_finish_success:
  "templates (snd (finish_success d env key r0 ar g)) = templates g"
  "has_api_manager (snd (finish_success d env key r0 ar g)) = has_api_manager g"
  "remote_calls (snd (finish_success d env key r0 ar g)) = remote_calls g"
  by (simp_all add: finish_success_def add_to_history_def invoke_callbacks_def lru_set_def Let_def)

lemma frame_lru_get:
  "templates (snd (lru_get now key g)) = templates g"
  "has_api_manager (snd (lru_get now key g)) = has_api_manager g"
  "remote_calls (snd (lru_get now key g)) = remote_calls g"
  by (simp_all add: lru_get_def split: option.splits)

lemma frame_get_template:
  "templates (snd (get_template d nm g)) = templates g"
  "has_api_manager (snd (get_template d nm g)) = has_api_manager g"
  by (simp_all add: get_template_def split: option.splits)

lemma frame_generate_rendered:
  "templates (snd (generate_rendered d env g nm merged ov uc rt r0 t p)) = templates g
   \<and> has_api_manager (snd (generate_rendered d env g nm merged ov uc rt r0 t p)) = has_api_manager g"
proof -
  obtain hit g2 where lg: "(if uc then lru_get (ge_now env) (generate_cache_key d nm merged)
        (g\<lparr>cache_checks := cache_checks g + 1\<rparr>) else (None, g\<lparr>cache_checks := cache_checks g + 1\<rparr>)) = (hit, g2)"
    by (metis surj_pair)
  have h2: "templates g2 = templates g \<and> has_api_manager g2 = has_api_manager g"
    using lg frame_lru_get(1,2)[of "ge_now env" "generate_cache_key d nm merged" "g\<lparr>cache_checks := cache_checks g + 1\<rparr>"]
    by (auto split: if_splits)
  obtain res n where ca: "call_api_with_retry env p (with_recommendations d t ov) rt = (res, n)"
    by (metis surj_pair)
  show ?thesis
    unfolding generate_rendered_def Let_def lg ca
    using h2 by (simp add: frame_give_up frame_finish_hit frame_finish_success split: option.splits sum.splits)
qed

lemma frame_generate_try:
  "(\<forall>r g'. generate_try d env g nm merged ov uc rt r0 = Inr (r, g') \<longrightarrow>
       templates g' = templates g \<and> has_api_manager g' = has_api_manager g)
   \<and> (\<forall>e g'. generate_try d env g nm merged ov uc rt r0 = Inl (e, g') \<longrightarrow>
       templates g' = templates g \<and> has_api_manager g' = has_api_manager g)"
proof -
  obtain tr g1 where gt: "get_template d nm g = (tr, g1)" by (metis surj_pair)
  have h1: "templates g1 = templates g" "has_api_manager g1 = has_api_manager g"
    using frame_get_template[of d nm g] gt by simp_all
  show ?thesis
    unfolding generate_try_def gt
    using h1 frame_give_up(1,2)[of _ r0 g] frame_give_up(1,2)[of _ r0 g1]
      frame_generate_rendered[of d env g1 nm merged ov uc rt r0]
    by (auto split: option.splits sum.splits pyexc.splits simp: prod_eq_iff)
qed

lemma frame_generate:
  "templates (snd (generate d env g nm vars uc rt kw)) = templates g"
  "has_api_manager (snd (generate d env g nm vars uc rt kw)) = has_api_manager g"
  unfolding generate_def Let_def
  using frame_generate_try[of d env g nm] frame_give_up(1,2)
  by (auto split: sum.splits prod.splits)

lemma call_loop_count:
  "a - 1 \<le> snd (call_loop env p ov n a le) \<and> (a \<le> n \<longrightarrow> a \<le> snd (call_loop env p ov n a le))"
proof (induction env p ov n a le rule: call_loop.induct)
  case (1 env prompt overrides attempts attempt last_error)
  show ?case
  proof (cases "attempt > attempts")
    case True
    have "snd (call_loop env prompt overrides attempts attempt last_error) = attempt - 1"
      using True by (subst call_loop.simps) simp
    with True show ?thesis by simp
  next
    case False
    show ?thesis
    proof (cases "ge_api env (attempt - 1) prompt overrides")
      case (Inl e)
      have "call_loop env prompt overrides attempts attempt last_error
            = call_loop env prompt overrides attempts (attempt + 1) (Some (exc_str e))"
        using False Inl by (subst call_loop.simps) simp
      with "1.IH"(1)[OF False Inl] show ?thesis by auto
    next
      case (Inr r)
      show ?thesis
      proof (cases "ar_success r")
        case True
        have "snd (call_loop env prompt overrides attempts attempt last_error) = attempt"
          using False Inr True by (subst call_loop.simps) simp
        then show ?thesis by simp
      next
        case nt: False
        have "call_loop env prompt overrides attempts attempt last_error
              = call_loop env prompt overrides attempts (attempt + 1) (ar_error r)"
          using False Inr nt by (subst call_loop.simps) simp
        with "1.IH"(2)[OF False Inr nt] show ?thesis by auto
      qed
    qed
  qed
qed

lemma call_api_count: "1 \<le> snd (call_api_with_retry env p ov rt)"
  using call_loop_count[of 1 env p ov "if rt then DEFAULT_RETRY_ATTEMPTS + 1 else 1" None]
  by (simp add: call_api_with_retry_def DEFAULT_RETRY_ATTEMPTS_def)

lemma evict_keys: "map_of c k = None \<Longrightarrow> map_of (evict c) k = None"
proof (induction c rule: evict.induct)
  case (1 c)
  show ?case
  proof (cases "length c \<ge> MAX_CACHE_SIZE")
    case True
    have "map_of (tl c) k = None" using "1.prems" by (cases c) (auto split: if_splits)
    with "1.IH"[OF True] True show ?thesis by (subst evict.simps) simp
  next
    case False
    with "1.prems" show ?thesis by (subst evict.simps) simp
  qed
qed

lemma rendered_hit:
  assumes "map_of (cache g) (generate_cache_key d nm merged) = Some e"
    and "ge_now env \<le> expires_at e"
  shows "cached (fst (generate_rendered d env g nm merged ov True rt r0 t p))
       \<and> remote_calls (snd (generate_rendered d env g nm merged ov True rt r0 t p)) = remote_calls g"
  using assms
  by (simp add: generate_rendered_def lru_get_def Let_def frame_finish_hit)

lemma rendered_miss:
  assumes "cache g = []" and "has_api_manager g"
  shows "remote_calls g < remote_calls (snd (generate_rendered d env g nm merged ov uc rt r0 t p))"
proof -
  obtain res n where ca: "call_api_with_retry env p (with_recommendations d t ov) rt = (res, n)"
    by (metis surj_pair)
  have n: "1 \<le> n" using call_api_count[of env p "with_recommendations d t ov" rt] ca by simp
  show ?thesis
    using assms n
    by (simp add: generate_rendered_def lru_get_def Let_def ca frame_give_up frame_finish_success
        split: sum.splits)
qed

lemma rendered_success:
  assumes "success (fst (generate_rendered d env g nm merged ov True rt r0 t p))"
    and "\<not> success r0"
  shows "(\<exists>e. map_of (cache (snd (generate_rendered d env g nm merged ov True rt r0 t p)))
                (generate_cache_key d nm merged) = Some e)
       \<and> (\<not> cached (fst (generate_rendered d env g nm merged ov True rt r0 t p)) \<longrightarrow>
            map_of (cache (snd (generate_rendered d env g nm merged ov True rt r0 t p)))
                (generate_cache_key d nm merged)
              = Some \<lparr>data = fst (generate_rendered d env g nm merged ov True rt r0 t p),
                      expires_at = ge_set_now env + CACHE_TTL_SECONDS,
                      created_at = ge_set_now' env\<rparr>)
       \<and> (cache g \<noteq> [] \<or> has_api_manager g)"
proof -
  let ?key = "generate_cache_key d nm merged"
  let ?g1 = "g\<lparr>cache_checks := cache_checks g + 1\<rparr>"
  obtain res n where ca: "call_api_with_retry env p (with_recommendations d t ov) rt = (res, n)"
    by (metis surj_pair)
  have nf: "\<And>msg r g0. \<not> success r \<Longrightarrow> \<not> success (fst (give_up msg r g0))"
    by (simp add: give_up_def Let_def)
  show ?thesis
  proof (cases "fst (lru_get (ge_now env) ?key ?g1)")
    case (Some c)
    then obtain e where e: "map_of (cache g) ?key = Some e" and ne: "\<not> ge_now env > expires_at e"
      by (auto simp: lru_get_def split: option.splits if_splits)
    have ne': "cache g \<noteq> []" using e by auto
    show ?thesis
      using e ne ne'
      by (simp add: generate_rendered_def lru_get_def Let_def finish_hit_def add_to_history_def
          invoke_callbacks_def map_of_map_entry delete_conv' map_add_def)
  next
    case None
    obtain g2 where lg: "lru_get (ge_now env) ?key ?g1 = (None, g2)"
      using None by (metis prod.collapse)
    have h2: "has_api_manager g2 = has_api_manager g"
      using frame_lru_get(2)[of "ge_now env" ?key ?g1] lg by simp
    show ?thesis
    proof (cases "has_api_manager g")
      case False
      with assms lg h2 nf[OF assms(2)] show ?thesis
        by (simp add: generate_rendered_def Let_def)
    next
      case True
      show ?thesis
      proof (cases res)
        case (Inl m)
        have "\<not> success (r0\<lparr>generation_time := ge_elapsed env\<rparr>)" using assms(2) by simp
        from nf[OF this] assms(1) lg h2 True Inl ca show ?thesis
          by (simp add: generate_rendered_def Let_def)
      next
        case (Inr ar)
        have k: "map_of (evict (AList.delete ?key (cache g2))) ?key = None"
          by (rule evict_keys) (simp add: delete_conv')
        show ?thesis
          using lg h2 True Inr ca k
          by (simp add: generate_rendered_def Let_def finish_success_def lru_set_def
              add_to_history_def invoke_callbacks_def map_add_def)
      qed
    qed
  qed
qed

lemma rendered_no_client:
  assumes "cache g = []" and "\<not> has_api_manager g"
  shows "cache (snd (generate_rendered d env g nm merged ov uc rt r0 t p)) = []"
  using assms
  by (simp add: generate_rendered_def lru_get_def Let_def cache_give_up)

lemma generate_try_no_client:
  assumes "cache g = []" and "\<not> has_api_manager g"
  shows "(\<forall>r g'. generate_try d env g nm merged ov uc rt r0 = Inr (r, g') \<longrightarrow> cache g' = [])
       \<and> (\<forall>e g'. generate_try d env g nm merged ov uc rt r0 = Inl (e, g') \<longrightarrow> cache g' = [])"
proof -
  obtain tr g1 where gt: "get_template d nm g = (tr, g1)" by (metis surj_pair)
  have h1: "cache g1 = []" "\<not> has_api_manager g1"
    using get_template_cache[of d nm g] frame_get_template(2)[of d nm g] gt assms by simp_all
  show ?thesis
    unfolding generate_try_def gt
    using h1 assms cache_give_up[of _ r0 g] cache_give_up[of _ r0 g1]
      rendered_no_client[OF h1, of d env nm merged ov uc rt r0]
    by (auto split: option.splits sum.splits pyexc.splits simp: prod_eq_iff)
qed

lemma generate_api_sound:
  assumes "api_sound g"
  shows "api_sound (snd (generate d env g nm vars uc rt kw))"
proof (cases "has_api_manager g")
  case True
  then show ?thesis by (simp add: api_sound_def frame_generate(2))
next
  case False
  with assms have c: "cache g = []" by (simp add: api_sound_def)
  have "cache (snd (generate d env g nm vars uc rt kw)) = []"
    unfolding generate_def Let_def
    using generate_try_no_client[OF c False, of d env nm] cache_give_up
    by (auto split: sum.splits prod.splits)
  then show ?thesis by (simp add: api_sound_def)
qed

lemma register_keeps_client:
  "register_template d t g = Inr (t', g') \<Longrightarrow> has_api_manager g' = has_api_manager g"
  by (auto simp: register_template_def engine_register_def split: sum.splits)

lemma reachable_api_sound: "reachable d g \<Longrightarrow> api_sound g"
proof (induction rule: reachable.induct)
  case (fresh tpls api sid start)
  show ?case by (simp add: api_sound_def new_generator_def)
next
  case (after_generate g env template_name vars use_cache retry kwargs)
  then show ?case by (simp add: generate_api_sound)
next
  case (after_clear_cache g)
  show ?case by (simp add: api_sound_def clear_cache_def)
next
  case (after_clear_history g)
  then show ?case by (simp add: api_sound_def clear_history_def)
next
  case (after_register g t t' g')
  then show ?case
    using templates_register[of d t g t' g'] register_keeps_client[of d t g t' g']
    by (simp add: api_sound_def)
qed

text \<open>
  Claim C1. Let a first \<^verbatim>\<open>generate\<close> call with \<^verbatim>\<open>use_cache=True\<close> succeed, in any state
  a generator can reach. If the first call went to the client, its result is stored under the
  key of the call with an expiry of \<^verbatim>\<open>CACHE_TTL_SECONDS\<close> after the time of storing. A second
  call with the same template name and variables, made before the entry stored under that key
  expires, returns a record with \<^verbatim>\<open>cached\<close> true and makes no call of
  \<^verbatim>\<open>api_manager.generate_content\<close>. After \<^verbatim>\<open>clear_cache()\<close> the same call makes at least
  one such call.
\<close>

theorem second_call_is_served_from_cache:
  fixes d g env1 env2 env3 nm vars kw rt1 rt2 rt3 uc3
  defines "g1 \<equiv> snd (generate d env1 g nm vars True rt1 kw)"
  defines "g2 \<equiv> snd (generate d env2 g1 nm vars True rt2 kw)"
  defines "g3 \<equiv> snd (clear_cache g2)"
  assumes reach: "reachable d g"
    and first: "success (fst (generate d env1 g nm vars True rt1 kw))"
    and live: "\<forall>e. map_of (cache g1) (request_key d nm vars kw) = Some e \<longrightarrow> ge_now env2 \<le> expires_at e"
  shows "(\<not> cached (fst (generate d env1 g nm vars True rt1 kw)) \<longrightarrow>
            map_of (cache g1) (request_key d nm vars kw)
              = Some \<lparr>data = fst (generate d env1 g nm vars True rt1 kw),
                      expires_at = ge_set_now env1 + CACHE_TTL_SECONDS,
                      created_at = ge_set_now' env1\<rparr>)
       \<and> cached (fst (generate d env2 g1 nm vars True rt2 kw))
       \<and> remote_calls g2 = remote_calls g1
       \<and> remote_calls g3 < remote_calls (snd (generate d env3 g3 nm vars uc3 rt3 kw))"
proof -
  let ?M = "merged_variables vars kw"
  let ?ov = "filter (\<lambda>kv. is_api_override (fst kv)) kw"
  let ?key = "generate_cache_key d nm ?M"
  let ?use = "\<lambda>s. s\<lparr>usage_stats := bump nm 0 (usage_stats s) (\<lambda>n. n + 1)\<rparr>"
  from generate_success_path[OF first] obtain t0 t p where
    vi: "validate_input nm ?M = None" and tm: "map_of (templates g) nm = Some t0"
    and pt: "PromptTemplate d t0 = Inr t" and tg: "template_generate d t ?M True True = Inr p"
    by blast
  have u1: "generate d env1 g nm vars True rt1 kw =
      generate_rendered d env1 (?use g) nm ?M ?ov True rt1 (base_result env1 nm ?M) t p"
    by (rule generate_unfold[OF vi tm pt tg])
  have b1: "\<not> success (base_result env1 nm ?M)" by (simp add: base_result_def)
  note rs = rendered_success[OF first[unfolded u1] b1]
  from rs obtain e where e: "map_of (cache g1) ?key = Some e"
    unfolding g1_def u1 by blast
  from live e have le: "ge_now env2 \<le> expires_at e" by (simp add: request_key_def)
  have stored: "\<not> cached (fst (generate d env1 g nm vars True rt1 kw)) \<longrightarrow>
            map_of (cache g1) (request_key d nm vars kw)
              = Some \<lparr>data = fst (generate d env1 g nm vars True rt1 kw),
                      expires_at = ge_set_now env1 + CACHE_TTL_SECONDS,
                      created_at = ge_set_now' env1\<rparr>"
    using rs unfolding g1_def u1 request_key_def by blast
  have client: "has_api_manager g"
    using rs reachable_api_sound[OF reach] by (auto simp: api_sound_def)
  have t1: "map_of (templates g1) nm = Some t0"
    unfolding g1_def using tm by (simp add: frame_generate(1))
  have u2: "generate d env2 g1 nm vars True rt2 kw =
      generate_rendered d env2 (?use g1) nm ?M ?ov True rt2 (base_result env2 nm ?M) t p"
    by (rule generate_unfold[OF vi t1 pt tg])
  have e': "map_of (cache (?use g1)) ?key = Some e" using e by simp
  from rendered_hit[OF e' le, of ?ov rt2 "base_result env2 nm ?M" t p]
  have hit: "cached (fst (generate d env2 g1 nm vars True rt2 kw))"
    and same: "remote_calls g2 = remote_calls g1"
    unfolding g2_def u2 by simp_all
  have t3: "map_of (templates g3) nm = Some t0"
    unfolding g3_def g2_def using t1 by (simp add: clear_cache_def frame_generate(1))
  have c3: "cache (?use g3) = []" unfolding g3_def by (simp add: clear_cache_def)
  have a3: "has_api_manager (?use g3)"
    unfolding g3_def g2_def g1_def using client by (simp add: clear_cache_def frame_generate(2))
  have u3: "generate d env3 g3 nm vars uc3 rt3 kw =
      generate_rendered d env3 (?use g3) nm ?M ?ov uc3 rt3 (base_result env3 nm ?M) t p"
    by (rule generate_unfold[OF vi t3 pt tg])
  from rendered_miss[OF c3 a3, of d env3 nm ?M ?ov uc3 rt3 "base_result env3 nm ?M" t p]
  have again: "remote_calls g3 < remote_calls (snd (generate d env3 g3 nm vars uc3 rt3 kw))"
    unfolding u3 by simp
  from stored hit same again show ?thesis by blast
qed

lemma expiry_after_full_call:
  "map (\<lambda>kv. expires_at (snd kv)) (cache (snd (generate_call sample_deps sample_generator full_call)))
     = [3600]"
  by (simp add: generate_call_def full_call_def generate_def generate_try_def dict_update_def
      validate_input_full get_template_def sample_generator_def new_generator_def
      product_description_valid render_full generate_rendered_def lru_get_def
      call_api_with_retry_def call_loop.simps sample_env_def sample_response_def
      finish_success_def lru_set_def evict.simps MAX_CACHE_SIZE_def CACHE_TTL_SECONDS_def
      add_to_history_def invoke_callbacks_def base_result_def Let_def)

lemma live_after_full_call:
  assumes "map_of (cache (snd (generate_call sample_deps sample_generator full_call))) k = Some e"
  shows "ge_now sample_env \<le> expires_at e"
proof -
  from assms have "(k, e) \<in> set (cache (snd (generate_call sample_deps sample_generator full_call)))"
    by (rule map_of_SomeD)
  then have "expires_at e \<in> set (map (\<lambda>kv. expires_at (snd kv))
      (cache (snd (generate_call sample_deps sample_generator full_call))))"
    by force
  then have "expires_at e = 3600" by (simp add: expiry_after_full_call)
  then show ?thesis by (simp add: sample_env_def)
qed

theorem second_call_is_served_from_cache_witness:
  "reachable sample_deps sample_generator
   \<and> success (fst (generate_call sample_deps sample_generator full_call))
   \<and> cached (fst (generate_call sample_deps
                   (snd (generate_call sample_deps sample_generator full_call)) full_call))
   \<and> remote_calls (snd (generate_call sample_deps
                   (snd (generate_call sample_deps sample_generator full_call)) full_call))
       = remote_calls (snd (generate_call sample_deps sample_generator full_call))
   \<and> remote_calls (snd (clear_cache (snd (generate_call sample_deps
                   (snd (generate_call sample_deps sample_generator full_call)) full_call))))
       < remote_calls (snd (generate_call sample_deps
            (snd (clear_cache (snd (generate_call sample_deps
                   (snd (generate_call sample_deps sample_generator full_call)) full_call))))
            full_call))"
proof -
  have s: "success (fst (generate_call sample_deps sample_generator full_call))"
    by (simp add: full_call_result)
  have l: "\<forall>e. map_of (cache (snd (generate_call sample_deps sample_generator full_call)))
             (request_key sample_deps (c_template_name full_call) (c_variables full_call)
                (c_kwargs full_call)) = Some e \<longrightarrow> ge_now sample_env \<le> expires_at e"
    using live_after_full_call by blast
  have e: "c_env full_call = sample_env" "c_use_cache full_call = True"
    by (simp_all add: full_call_def)
  from second_call_is_served_from_cache [of sample_deps sample_generator sample_env
      "c_template_name full_call" "c_variables full_call" "c_retry_on_failure full_call"
      "c_kwargs full_call" sample_env "c_retry_on_failure full_call" sample_env True
      "c_retry_on_failure full_call"]
    reachable_sample [of sample_deps] s l
  show ?thesis by (simp add: generate_call_def e)
qed

end
